theory Spec2Isabelle
  imports
    Complex_Main
    "HOL-Library.Sublist"
    "HOL-Library.Multiset"
    "HOL-Library.Char_ord"
    "HOL-Library.List_Lexorder"
    "HOL-Library.Product_Lexorder"
begin

section \<open>Python values used by the code\<close>

subsection \<open>Exceptions\<close>

text \<open>
  The exceptions the modelled code raises or lets through.  \<open>CancelledError\<close> derives from
  \<open>BaseException\<close> only, so an \<open>except Exception\<close> clause does not catch it; every other
  constructor is a subclass of \<open>Exception\<close>.  \<open>InvalidQuery\<close> stands for the resolution
  failure of a field path, \<open>RequestValidationError\<close> for a query parameter refused by its
  declared \<open>pattern\<close>.  \<open>NoResultFound\<close> and \<open>InvalidRequestError\<close> are SQLAlchemy's; the
  clause \<open>except NoResultFound\<close> does not catch an \<open>InvalidRequestError\<close>.
\<close>

datatype exc =
    ItemNotFoundError string
  | TypeError string
  | KeyError string
  | ValueError string
  | InvalidQuery string
  | RequestValidationError string
  | RuntimeError string
  | NoResultFound
  | InvalidRequestError string
  | WebSocketDisconnect
  | CancelledError

fun is_Exception :: "exc \<Rightarrow> bool" where
  "is_Exception CancelledError = False"
| "is_Exception _ = True"

subsection \<open>Strings\<close>

text \<open>\<open>s.split(sep)\<close> for a one-character separator: never empty, \<open>"".split(",") = [""]\<close>.\<close>

fun split_char :: "char \<Rightarrow> string \<Rightarrow> string list" where
  "split_char sep [] = [[]]"
| "split_char sep (c # cs) =
     (if c = sep then [] # split_char sep cs
      else (case split_char sep cs of
              [] \<Rightarrow> [[c]]
            | w # ws \<Rightarrow> (c # w) # ws))"

definition lowercase_letters :: string where
  "lowercase_letters = ''abcdefghijklmnopqrstuvwxyz''"

definition uppercase_letters :: string where
  "uppercase_letters = ''ABCDEFGHIJKLMNOPQRSTUVWXYZ''"

definition upper_char :: "char \<Rightarrow> char" where
  "upper_char c = (case map_of (zip lowercase_letters uppercase_letters) c of
                     None \<Rightarrow> c | Some u \<Rightarrow> u)"

definition lower_char :: "char \<Rightarrow> char" where
  "lower_char c = (case map_of (zip uppercase_letters lowercase_letters) c of
                     None \<Rightarrow> c | Some l \<Rightarrow> l)"

text \<open>\<open>str.upper()\<close> and \<open>str.lower()\<close> on ASCII text.\<close>

definition upper :: "string \<Rightarrow> string" where
  "upper s = map upper_char s"

definition lower :: "string \<Rightarrow> string" where
  "lower s = map lower_char s"

definition decimal_digits :: string where
  "decimal_digits = ''0123456789''"

definition is_digit :: "char \<Rightarrow> bool" where
  "is_digit c = (c \<in> set decimal_digits)"

fun digit_value :: "char \<Rightarrow> nat" where
  "digit_value c = length (takeWhile (\<lambda>d. d \<noteq> c) decimal_digits)"

fun str_nat :: "nat \<Rightarrow> string" where
  "str_nat n = (if n < 10 then [decimal_digits ! n]
                else str_nat (n div 10) @ [decimal_digits ! (n mod 10)])"

declare str_nat.simps [simp del]

text \<open>\<open>str(i)\<close> for an integer.\<close>

definition str_int :: "int \<Rightarrow> string" where
  "str_int i = (if i < 0 then CHR ''-'' # str_nat (nat (- i)) else str_nat (nat i))"

definition digits_value :: "string \<Rightarrow> nat" where
  "digits_value ds = foldl (\<lambda>acc c. 10 * acc + digit_value c) 0 ds"

text \<open>
  \<open>int(v)\<close> on the forms the query pattern \<open>^-?\d+(,-?\d+)*$\<close> lets through: an optional minus
  sign and at least one decimal digit.  Anything else is a \<open>ValueError\<close>.
\<close>

definition py_int :: "string \<Rightarrow> exc + int" where
  "py_int v =
     (case v of
        [] \<Rightarrow> Inl (ValueError v)
      | c # cs \<Rightarrow>
          if c = CHR ''-'' then
            (if cs \<noteq> [] \<and> list_all is_digit cs then Inr (- int (digits_value cs))
             else Inl (ValueError v))
          else if list_all is_digit (c # cs) then Inr (int (digits_value (c # cs)))
          else Inl (ValueError v))"

subsection \<open>Column values and their order\<close>

text \<open>
  A value of a column as the database compares it in \<open>ORDER BY\<close>: \<open>NULL\<close> sorts before every
  number, numbers before text, text byte by byte.
\<close>

datatype sqlval = SqlNull | SqlInt int | SqlReal real | SqlStr string

fun sql_key :: "sqlval \<Rightarrow> nat \<times> real \<times> string" where
  "sql_key SqlNull = (0, 0, [])"
| "sql_key (SqlInt i) = (1, real_of_int i, [])"
| "sql_key (SqlReal r) = (1, r, [])"
| "sql_key (SqlStr s) = (2, 0, s)"

datatype SortOrder = ASC | DESC

datatype EventType = ADDED | UPDATED | DELETED

section \<open>The ORM classes and the session\<close>

text \<open>
  The columns are those of the migration \<open>1b23c4567abc\<close>.  Times are microseconds since the
  epoch.  The seventeen columns of a cost calculation that are also the keyword parameters of
  its \<open>create\<close> and \<open>update\<close> form the record \<open>cost_fields\<close>, which the row extends.  Python's \<open>id\<close> attribute is \<open>pid\<close>, \<open>fid\<close> and \<open>cid\<close> here; it is assigned by the flush
  inside \<open>commit\<close>, and the placeholder an unflushed object carries is never read.  The
  column \<open>notes\<close> is \<open>notes_c\<close>.
\<close>

record Printer =
  pid :: int
  registered :: nat
  name :: string
  power_watts :: "real option"
  depreciation_cost_per_hour :: "real option"
  comment :: "string option"

text \<open>
  Modelled from the spec: the ORM class \<open>models.Filament\<close> is not among the sources; the
  code reads nothing of a filament but its identity.
\<close>

record Filament =
  fid :: int
  filament_name :: "string option"

record cost_fields =
  printer_id :: "int option"
  filament_id :: "int option"
  print_time_hours :: "real option"
  labor_time_hours :: "real option"
  filament_weight_g :: "real option"
  material_cost :: "real option"
  energy_cost :: "real option"
  depreciation_cost :: "real option"
  labor_cost :: "real option"
  consumables_cost :: "real option"
  failure_rate :: "real option"
  markup_rate :: "real option"
  base_price :: "real option"
  uplifted_price :: "real option"
  final_price :: "real option"
  currency :: "string option"
  notes_c :: "string option"

record CostRow = cost_fields +
  cid :: int
  created :: nat

text \<open>
  A \<open>models.CostCalculation\<close> object: its columns and its two loaded relationships.  The
  foreign-key columns follow the relationships at the flush.
\<close>

record CostCalculation =
  row :: CostRow
  printer :: "Printer option"
  filament :: "Filament option"

datatype unit_of_work =
    AddPrinter Printer
  | DirtyPrinter Printer
  | DeletePrinter Printer
  | AddCost CostCalculation
  | DirtyCost CostCalculation
  | DeleteCost CostCalculation

datatype statement_kind = CountStatement | SelectStatement

text \<open>
  An \<open>AsyncSession\<close> over the three tables: the committed rows in storage order, the unit of
  work that \<open>add\<close>, \<open>delete\<close> and attribute assignment build up and \<open>commit\<close> flushes, and the
  statements that went through \<open>execute\<close>.
\<close>

record session =
  printer_table :: "Printer list"
  filament_table :: "Filament list"
  cost_table :: "CostRow list"
  pending :: "unit_of_work list"
  executed :: "statement_kind list"

definition next_key :: "int list \<Rightarrow> int" where
  "next_key ks = foldr max ks 0 + 1"

text \<open>
  The columns of an object as the flush writes them, and as the object holds them after
  it: a foreign key takes the key of the object its relationship holds.
\<close>

definition flushed_row :: "CostCalculation \<Rightarrow> CostRow" where
  "flushed_row c =
     (row c)\<lparr>printer_id := (case printer c of None \<Rightarrow> printer_id (row c)
                                | Some p \<Rightarrow> Some (pid p)),
             filament_id := (case filament c of None \<Rightarrow> filament_id (row c)
                                | Some f \<Rightarrow> Some (fid f))\<rparr>"

fun flush :: "unit_of_work \<Rightarrow> session \<Rightarrow> session" where
  "flush (AddPrinter p) s =
     s\<lparr>printer_table :=
         printer_table s @ [p\<lparr>pid := next_key (map pid (printer_table s))\<rparr>]\<rparr>"
| "flush (DirtyPrinter p) s =
     s\<lparr>printer_table := map (\<lambda>r. if pid r = pid p then p else r) (printer_table s)\<rparr>"
| "flush (DeletePrinter p) s =
     s\<lparr>printer_table := filter (\<lambda>r. pid r \<noteq> pid p) (printer_table s)\<rparr>"
| "flush (AddCost c) s =
     s\<lparr>cost_table :=
         cost_table s @ [(flushed_row c)\<lparr>cid := next_key (map cid (cost_table s))\<rparr>]\<rparr>"
| "flush (DirtyCost c) s =
     s\<lparr>cost_table :=
         map (\<lambda>r. if cid r = cid (row c) then flushed_row c else r) (cost_table s)\<rparr>"
| "flush (DeleteCost c) s =
     s\<lparr>cost_table := filter (\<lambda>r. cid r \<noteq> cid (row c)) (cost_table s)\<rparr>"

definition db_add :: "unit_of_work \<Rightarrow> session \<Rightarrow> session" where
  "db_add u s = s\<lparr>pending := pending s @ [u]\<rparr>"

text \<open>\<open>await db.commit()\<close>: the pending changes reach the tables in the order they were made.\<close>

definition db_commit :: "session \<Rightarrow> session" where
  "db_commit s = (fold flush (pending s) s)\<lparr>pending := []\<rparr>"

text \<open>\<open>db.get(models.Printer, printer_id)\<close> and \<open>db.get(models.Filament, filament_id)\<close>.\<close>

definition db_get_printer :: "session \<Rightarrow> int \<Rightarrow> Printer option" where
  "db_get_printer s i = find (\<lambda>r. pid r = i) (printer_table s)"

definition db_get_filament :: "session \<Rightarrow> int \<Rightarrow> Filament option" where
  "db_get_filament s i = find (\<lambda>r. fid r = i) (filament_table s)"

text \<open>Loading a cost row with its two many-to-one relationships.\<close>

definition load_cost :: "session \<Rightarrow> CostRow \<Rightarrow> CostCalculation" where
  "load_cost s r =
     \<lparr>row = r,
      printer = (case printer_id r of None \<Rightarrow> None | Some i \<Rightarrow> db_get_printer s i),
      filament = (case filament_id r of None \<Rightarrow> None | Some i \<Rightarrow> db_get_filament s i)\<rparr>"

definition db_get_cost :: "session \<Rightarrow> int \<Rightarrow> CostCalculation option" where
  "db_get_cost s i = map_option (load_cost s) (find (\<lambda>r. cid r = i) (cost_table s))"

text \<open>
  \<open>await db.refresh(obj)\<close> after the commit of an added object: the object is read back
  from the row the flush wrote, the last of its table, and so carries the generated key.
\<close>

definition db_refresh_printer :: "session \<Rightarrow> Printer \<Rightarrow> Printer" where
  "db_refresh_printer s p =
     (case rev (printer_table s) of [] \<Rightarrow> p | r # _ \<Rightarrow> r)"

definition db_refresh_cost :: "session \<Rightarrow> CostCalculation \<Rightarrow> CostCalculation" where
  "db_refresh_cost s c =
     (case rev (cost_table s) of [] \<Rightarrow> c | r # _ \<Rightarrow> c\<lparr>row := r\<rparr>)"

section \<open>The change emitter\<close>

type_synonym topic = "string list"

record 'a Event =
  event_type :: EventType
  resource :: string
  date :: nat
  payload :: 'a

text \<open>
  What the database layer imports and the sources do not hold: \<open>websocket_manager.send\<close>,
  which may change the manager's state \<open>'w\<close> and may raise, and the \<open>from_db\<close> constructors
  of the API models, which build the payload \<open>'a\<close> of an event from an ORM object.  The
  endpoints call \<open>CostCalculation.from_db\<close> with the object alone; the two other arguments
  are then \<open>None\<close>.
\<close>

record ('w, 'a) env =
  ws_send :: "topic \<Rightarrow> 'a Event \<Rightarrow> 'w \<Rightarrow> exc option \<times> 'w"
  Printer_from_db :: "Printer \<Rightarrow> 'a"
  Filament_from_db :: "Filament \<Rightarrow> 'a"
  CostCalculation_from_db :: "CostCalculation \<Rightarrow> 'a option \<Rightarrow> 'a option \<Rightarrow> 'a"

text \<open>
  The state a request runs in: its database session, the websocket manager, the calls of
  \<open>websocket_manager.send\<close> made so far, the lines written by \<open>logger.exception\<close> and the
  reading of \<open>datetime.utcnow()\<close>.
\<close>

record ('w, 'a) world =
  db :: session
  manager :: 'w
  published :: "(topic \<times> 'a Event) list"
  logged :: "string list"
  utcnow :: nat

text \<open>
  The \<open>try\<close> block of both emitters: the call of \<open>send\<close>, and \<open>except Exception\<close> around it,
  which logs and returns.  An exception that is no \<open>Exception\<close> goes on to the caller.
\<close>

definition send_logged ::
  "('w, 'a) env \<Rightarrow> topic \<Rightarrow> 'a Event \<Rightarrow> ('w, 'a) world \<Rightarrow> exc option \<times> ('w, 'a) world" where
  "send_logged E tp evt w =
     (let w1 = w\<lparr>published := published w @ [(tp, evt)]\<rparr>
      in case ws_send E tp evt (manager w1) of
           (None, m) \<Rightarrow> (None, w1\<lparr>manager := m\<rparr>)
         | (Some e, m) \<Rightarrow>
             if is_Exception e
             then (None, w1\<lparr>manager := m,
                            logged := logged w1 @ [''Failed to send websocket message'']\<rparr>)
             else (Some e, w1\<lparr>manager := m\<rparr>))"

text \<open>\<open>printer_changed\<close> of \<open>spoolman/database/printer.py\<close> and \<open>cost_changed\<close> of
  \<open>spoolman/database/cost.py\<close>.\<close>

definition printer_changed ::
  "('w, 'a) env \<Rightarrow> Printer \<Rightarrow> EventType \<Rightarrow> ('w, 'a) world \<Rightarrow> exc option \<times> ('w, 'a) world" where
  "printer_changed E p typ w =
     send_logged E [''printer'', str_int (pid p)]
       \<lparr>event_type = typ, resource = ''printer'', date = utcnow w,
        payload = Printer_from_db E p\<rparr> w"

definition cost_changed ::
  "('w, 'a) env \<Rightarrow> CostCalculation \<Rightarrow> EventType \<Rightarrow> ('w, 'a) world
     \<Rightarrow> exc option \<times> ('w, 'a) world" where
  "cost_changed E cost_calc typ w =
     send_logged E [''cost'', str_int (cid (row cost_calc))]
       \<lparr>event_type = typ, resource = ''cost'', date = utcnow w,
        payload = CostCalculation_from_db E cost_calc
                    (map_option (Printer_from_db E) (printer cost_calc))
                    (map_option (Filament_from_db E) (filament cost_calc))\<rparr> w"

section \<open>The database layer: printers\<close>

text \<open>\<open>datetime.utcnow().replace(microsecond=0)\<close>.\<close>

definition whole_seconds :: "nat \<Rightarrow> nat" where
  "whole_seconds t = (t div 1000000) * 1000000"

text \<open>\<open>create\<close> of \<open>spoolman/database/printer.py\<close>.\<close>

definition printer_db_create ::
  "('w, 'a) env \<Rightarrow> string \<Rightarrow> real option \<Rightarrow> real option \<Rightarrow> string option
     \<Rightarrow> ('w, 'a) world \<Rightarrow> (exc + Printer) \<times> ('w, 'a) world" where
  "printer_db_create E name' power_watts' depreciation_cost_per_hour' comment' w =
     (let p = \<lparr>pid = 0, registered = whole_seconds (utcnow w), name = name',
                power_watts = power_watts',
                depreciation_cost_per_hour = depreciation_cost_per_hour',
                comment = comment'\<rparr>;
          s1 = db_add (AddPrinter p) (db w);
          s2 = db_commit s1;
          p' = db_refresh_printer s2 p
      in case printer_changed E p' ADDED (w\<lparr>db := s2\<rparr>) of
           (Some e, w') \<Rightarrow> (Inl e, w')
         | (None, w') \<Rightarrow> (Inr p', w'))"

text \<open>\<open>get_by_id\<close> of \<open>spoolman/database/printer.py\<close>.\<close>

definition printer_db_get_by_id :: "session \<Rightarrow> int \<Rightarrow> exc + Printer" where
  "printer_db_get_by_id s printer_id' =
     (case db_get_printer s printer_id' of
        None \<Rightarrow> Inl (ItemNotFoundError (''No printer with ID '' @ str_int printer_id' @ '' found.''))
      | Some p \<Rightarrow> Inr p)"

text \<open>\<open>new if new is not None else old\<close>.\<close>

definition if_not_None :: "'b option \<Rightarrow> 'b option \<Rightarrow> 'b option" where
  "if_not_None new old = (case new of None \<Rightarrow> old | Some v \<Rightarrow> Some v)"

text \<open>
  \<open>update\<close> of \<open>spoolman/database/printer.py\<close>.  The assignments make the object dirty; it is
  entered into the unit of work once, with all of them, before the commit.
\<close>

definition printer_db_update ::
  "('w, 'a) env \<Rightarrow> int \<Rightarrow> string option \<Rightarrow> real option \<Rightarrow> real option \<Rightarrow> string option
     \<Rightarrow> ('w, 'a) world \<Rightarrow> (exc + Printer) \<times> ('w, 'a) world" where
  "printer_db_update E printer_id' name' power_watts' depreciation_cost_per_hour' comment' w =
     (case printer_db_get_by_id (db w) printer_id' of
        Inl e \<Rightarrow> (Inl e, w)
      | Inr p \<Rightarrow>
          (let p' = p\<lparr>name := (case name' of None \<Rightarrow> name p | Some n \<Rightarrow> n),
                       power_watts := if_not_None power_watts' (power_watts p),
                       depreciation_cost_per_hour :=
                         if_not_None depreciation_cost_per_hour' (depreciation_cost_per_hour p),
                       comment := if_not_None comment' (comment p)\<rparr>;
               s1 = db_add (DirtyPrinter p') (db w);
               s2 = db_commit s1
           in case printer_changed E p' UPDATED (w\<lparr>db := s2\<rparr>) of
                (Some e, w') \<Rightarrow> (Inl e, w')
              | (None, w') \<Rightarrow> (Inr p', w')))"

text \<open>\<open>await db.execute(stmt)\<close> leaves its mark on the session.\<close>

definition db_executed :: "statement_kind \<Rightarrow> session \<Rightarrow> session" where
  "db_executed k s = s\<lparr>executed := executed s @ [k]\<rparr>"

text \<open>
  \<open>scalar_one()\<close> on the result of a statement that loads a collection with a joined eager
  load, read without \<open>unique()\<close>: no row is \<open>NoResultFound\<close>, and on a row SQLAlchemy
  refuses to go on.
\<close>

definition scalar_one_of_joined_collection :: "'r option \<Rightarrow> exc + 'r" where
  "scalar_one_of_joined_collection found =
     (case found of
        None \<Rightarrow> Inl NoResultFound
      | Some _ \<Rightarrow>
          Inl (InvalidRequestError
                ''The unique() method must be invoked on this Result, as it contains results that include joined eager loads against collections''))"

text \<open>
  \<open>delete\<close> of \<open>spoolman/database/printer.py\<close>.  Its statement has the option
  \<open>joinedload("*")\<close>, which loads every relationship of \<open>models.Printer\<close> with a join, the
  collection \<open>cost_calculations\<close> among them (\<open>find\<close> loads it the same way and calls
  \<open>unique()\<close>); its result is read with \<open>scalar_one()\<close> alone.  \<open>except NoResultFound\<close> turns
  the missing row into \<open>ItemNotFoundError\<close> and lets every other exception through.
\<close>

definition printer_db_delete ::
  "('w, 'a) env \<Rightarrow> int \<Rightarrow> ('w, 'a) world \<Rightarrow> (exc + unit) \<times> ('w, 'a) world" where
  "printer_db_delete E printer_id' w =
     (let s0 = db_executed SelectStatement (db w)
      in case scalar_one_of_joined_collection (db_get_printer s0 printer_id') of
           Inl e \<Rightarrow>
             (if e = NoResultFound
              then (Inl (ItemNotFoundError
                          (''No printer with ID '' @ str_int printer_id' @ '' found.'')),
                    w\<lparr>db := s0\<rparr>)
              else (Inl e, w\<lparr>db := s0\<rparr>))
         | Inr p \<Rightarrow>
             (let s1 = db_add (DeletePrinter p) s0;
                  s2 = db_commit s1
              in case printer_changed E p DELETED (w\<lparr>db := s2\<rparr>) of
                   (Some e, w') \<Rightarrow> (Inl e, w')
                 | (None, w') \<Rightarrow> (Inr (), w')))"

section \<open>The database layer: cost calculations\<close>

text \<open>
  \<open>create\<close> of \<open>spoolman/database/cost.py\<close>, its seventeen keyword parameters after \<open>db\<close> as
  one record.  The new object gets its relationships, not the foreign keys.
\<close>

definition cost_db_create ::
  "('w, 'a) env \<Rightarrow> cost_fields \<Rightarrow> ('w, 'a) world
     \<Rightarrow> (exc + CostCalculation) \<times> ('w, 'a) world" where
  "cost_db_create E kw w =
     (case (case printer_id kw of
              None \<Rightarrow> Inr None
            | Some i \<Rightarrow> map_sum (\<lambda>e. e) Some (printer_db_get_by_id (db w) i)) of
        Inl e \<Rightarrow> (Inl e, w)
      | Inr printer_obj \<Rightarrow>
          (case (case filament_id kw of
                   None \<Rightarrow> Inr None
                 | Some i \<Rightarrow>
                     (case db_get_filament (db w) i of
                        None \<Rightarrow> Inl (ItemNotFoundError
                                      (''No filament with ID '' @ str_int i @ '' found.''))
                      | Some f \<Rightarrow> Inr (Some f))) of
             Inl e \<Rightarrow> (Inl e, w)
           | Inr filament_obj \<Rightarrow>
               (let calculation =
                      \<lparr>row = cost_fields.extend
                               (kw\<lparr>printer_id := None, filament_id := None\<rparr>)
                               (CostRow.fields 0 (whole_seconds (utcnow w))),
                       printer = printer_obj, filament = filament_obj\<rparr>;
                    s1 = db_add (AddCost calculation) (db w);
                    s2 = db_commit s1;
                    calculation' = db_refresh_cost s2 calculation
                in case cost_changed E calculation' ADDED (w\<lparr>db := s2\<rparr>) of
                     (Some e, w') \<Rightarrow> (Inl e, w')
                   | (None, w') \<Rightarrow> (Inr calculation', w'))))"

text \<open>\<open>get_by_id\<close> of \<open>spoolman/database/cost.py\<close>.\<close>

definition cost_db_get_by_id :: "session \<Rightarrow> int \<Rightarrow> exc + CostCalculation" where
  "cost_db_get_by_id s calculation_id =
     (case db_get_cost s calculation_id of
        None \<Rightarrow> Inl (ItemNotFoundError
                      (''No cost calculation with ID '' @ str_int calculation_id @ '' found.''))
      | Some c \<Rightarrow> Inr c)"

text \<open>The fifteen assignments \<open>calculation.x = x if x is not None else calculation.x\<close>.\<close>

definition assign_fields :: "cost_fields \<Rightarrow> CostRow \<Rightarrow> CostRow" where
  "assign_fields kw r =
     r\<lparr>print_time_hours := if_not_None (print_time_hours kw) (print_time_hours r),
       labor_time_hours := if_not_None (labor_time_hours kw) (labor_time_hours r),
       filament_weight_g := if_not_None (filament_weight_g kw) (filament_weight_g r),
       material_cost := if_not_None (material_cost kw) (material_cost r),
       energy_cost := if_not_None (energy_cost kw) (energy_cost r),
       depreciation_cost := if_not_None (depreciation_cost kw) (depreciation_cost r),
       labor_cost := if_not_None (labor_cost kw) (labor_cost r),
       consumables_cost := if_not_None (consumables_cost kw) (consumables_cost r),
       failure_rate := if_not_None (failure_rate kw) (failure_rate r),
       markup_rate := if_not_None (markup_rate kw) (markup_rate r),
       base_price := if_not_None (base_price kw) (base_price r),
       uplifted_price := if_not_None (uplifted_price kw) (uplifted_price r),
       final_price := if_not_None (final_price kw) (final_price r),
       currency := if_not_None (currency kw) (currency r),
       notes_c := if_not_None (notes_c kw) (notes_c r)\<rparr>"

text \<open>
  \<open>update\<close> of \<open>spoolman/database/cost.py\<close>.  The flush inside \<open>commit\<close> sets the foreign keys
  on the object itself, so \<open>cost_changed\<close> and the caller see them as the row has them.
\<close>

definition cost_db_update ::
  "('w, 'a) env \<Rightarrow> int \<Rightarrow> cost_fields \<Rightarrow> ('w, 'a) world
     \<Rightarrow> (exc + CostCalculation) \<times> ('w, 'a) world" where
  "cost_db_update E calculation_id kw w =
     (case cost_db_get_by_id (db w) calculation_id of
        Inl e \<Rightarrow> (Inl e, w)
      | Inr calculation \<Rightarrow>
          (case (case printer_id kw of
                   None \<Rightarrow> Inr calculation
                 | Some i \<Rightarrow>
                     map_sum (\<lambda>e. e) (\<lambda>p. calculation\<lparr>printer := Some p\<rparr>)
                       (printer_db_get_by_id (db w) i)) of
             Inl e \<Rightarrow> (Inl e, w)
           | Inr calculation1 \<Rightarrow>
               (case (case filament_id kw of
                        None \<Rightarrow> Inr calculation1
                      | Some i \<Rightarrow>
                          (case db_get_filament (db w) i of
                             None \<Rightarrow> Inl (ItemNotFoundError
                                           (''No filament with ID '' @ str_int i @ '' found.''))
                           | Some f \<Rightarrow> Inr (calculation1\<lparr>filament := Some f\<rparr>))) of
                  Inl e \<Rightarrow> (Inl e, w)
                | Inr calculation2 \<Rightarrow>
                    (let calculation3 =
                           calculation2\<lparr>row := assign_fields kw (row calculation2)\<rparr>;
                         s1 = db_add (DirtyCost calculation3) (db w);
                         s2 = db_commit s1;
                         calculation4 = calculation3\<lparr>row := flushed_row calculation3\<rparr>
                     in case cost_changed E calculation4 UPDATED (w\<lparr>db := s2\<rparr>) of
                          (Some e, w') \<Rightarrow> (Inl e, w')
                        | (None, w') \<Rightarrow> (Inr calculation4, w')))))"

text \<open>\<open>delete\<close> of \<open>spoolman/database/cost.py\<close>.\<close>

definition cost_db_delete ::
  "('w, 'a) env \<Rightarrow> int \<Rightarrow> ('w, 'a) world \<Rightarrow> (exc + unit) \<times> ('w, 'a) world" where
  "cost_db_delete E calculation_id w =
     (let s0 = db_executed SelectStatement (db w)
      in case db_get_cost s0 calculation_id of
           None \<Rightarrow>
             (Inl (ItemNotFoundError
                    (''No cost calculation with ID '' @ str_int calculation_id @ '' found.'')),
              w\<lparr>db := s0\<rparr>)
         | Some c \<Rightarrow>
             (let s1 = db_add (DeleteCost c) s0;
                  s2 = db_commit s1
              in case cost_changed E c DELETED (w\<lparr>db := s2\<rparr>) of
                   (Some e, w') \<Rightarrow> (Inl e, w')
                 | (None, w') \<Rightarrow> (Inr (), w')))"

section \<open>Select statements\<close>

text \<open>
  A \<open>select\<close> over the rows \<open>'r\<close> as the code builds it: \<open>where\<close> criteria, \<open>order_by\<close>
  criteria in the order of the calls, \<open>offset\<close> and \<open>limit\<close>.
\<close>

record 'r select =
  whereclause :: "'r \<Rightarrow> bool"
  order_by_clauses :: "(('r \<Rightarrow> sqlval) \<times> SortOrder) list"
  offset_clause :: "int option"
  limit_clause :: "int option"

definition select_from :: "'r select" where
  "select_from =
     \<lparr>whereclause = (\<lambda>_. True), order_by_clauses = [], offset_clause = None,
      limit_clause = None\<rparr>"

definition stmt_where :: "('r \<Rightarrow> bool) \<Rightarrow> 'r select \<Rightarrow> 'r select" where
  "stmt_where cond stmt = stmt\<lparr>whereclause := (\<lambda>r. whereclause stmt r \<and> cond r)\<rparr>"

definition stmt_offset :: "int \<Rightarrow> 'r select \<Rightarrow> 'r select" where
  "stmt_offset n stmt = stmt\<lparr>offset_clause := Some n\<rparr>"

definition stmt_limit :: "int \<Rightarrow> 'r select \<Rightarrow> 'r select" where
  "stmt_limit n stmt = stmt\<lparr>limit_clause := Some n\<rparr>"

definition stmt_order_by :: "('r \<Rightarrow> sqlval) \<times> SortOrder \<Rightarrow> 'r select \<Rightarrow> 'r select" where
  "stmt_order_by c stmt = stmt\<lparr>order_by_clauses := order_by_clauses stmt @ [c]\<rparr>"

text \<open>
  The order of two rows under a list of \<open>ORDER BY\<close> criteria: the first criterion on which
  the rows differ decides, in its direction.
\<close>

fun row_le :: "(('r \<Rightarrow> sqlval) \<times> SortOrder) list \<Rightarrow> 'r \<Rightarrow> 'r \<Rightarrow> bool" where
  "row_le [] r s = True"
| "row_le ((f, d) # cs) r s =
     (if sql_key (f r) = sql_key (f s) then row_le cs r s
      else (case d of ASC \<Rightarrow> sql_key (f r) < sql_key (f s)
                    | DESC \<Rightarrow> sql_key (f s) < sql_key (f r)))"

fun insert_row :: "('r \<Rightarrow> 'r \<Rightarrow> bool) \<Rightarrow> 'r \<Rightarrow> 'r list \<Rightarrow> 'r list" where
  "insert_row le x [] = [x]"
| "insert_row le x (y # ys) = (if le x y then x # y # ys else y # insert_row le x ys)"

text \<open>Rows that the criteria do not tell apart stay in storage order.\<close>

definition sort_rows :: "(('r \<Rightarrow> sqlval) \<times> SortOrder) list \<Rightarrow> 'r list \<Rightarrow> 'r list" where
  "sort_rows cs rows = foldr (insert_row (row_le cs)) rows []"

text \<open>
  \<open>OFFSET\<close> and \<open>LIMIT\<close> as SQLite, the default backend, reads them: a negative offset is
  zero, a negative limit is no limit.
\<close>

definition sql_offset_limit :: "int option \<Rightarrow> int option \<Rightarrow> 'r list \<Rightarrow> 'r list" where
  "sql_offset_limit off lmt rows =
     (let rest = (case off of None \<Rightarrow> rows | Some n \<Rightarrow> drop (nat n) rows)
      in case lmt of
           None \<Rightarrow> rest
         | Some n \<Rightarrow> if n < 0 then rest else take (nat n) rest)"

definition execute_select :: "'r list \<Rightarrow> 'r select \<Rightarrow> 'r list" where
  "execute_select table stmt =
     sql_offset_limit (offset_clause stmt) (limit_clause stmt)
       (sort_rows (order_by_clauses stmt) (filter (whereclause stmt) table))"

text \<open>
  \<open>stmt.with_only_columns(func.count(), maintain_column_froms=True)\<close>, executed and read
  with \<open>scalar()\<close>: the number of rows that pass the \<open>where\<close> criteria.
\<close>

definition execute_count :: "'r list \<Rightarrow> 'r select \<Rightarrow> int" where
  "execute_count table stmt = int (length (filter (whereclause stmt) table))"

fun unique_from :: "'r list \<Rightarrow> 'r list \<Rightarrow> 'r list" where
  "unique_from seen [] = []"
| "unique_from seen (x # xs) =
     (if x \<in> set seen then unique_from seen xs else x # unique_from (x # seen) xs)"

text \<open>\<open>result.scalars().unique().all()\<close>: the first occurrence of every object.\<close>

definition unique :: "'r list \<Rightarrow> 'r list" where
  "unique xs = unique_from [] xs"

subsection \<open>The helpers of \<open>spoolman.database.utils\<close>\<close>

text \<open>
  Modelled from the spec: \<open>add_where_clause_str_opt\<close> is not among the sources.  The filter
  value is a comma-separated list of terms, OR'd; a term in double quotes matches by
  case-insensitive equality, any other term by case-insensitive substring.  No value, no
  criterion.
\<close>

definition is_quoted :: "string \<Rightarrow> bool" where
  "is_quoted t = (2 \<le> length t \<and> hd t = CHR 0x22 \<and> last t = CHR 0x22)"

definition unquoted :: "string \<Rightarrow> string" where
  "unquoted t = butlast (tl t)"

fun contains :: "string \<Rightarrow> string \<Rightarrow> bool" where
  "contains [] t = (t = [])"
| "contains (c # cs) t = (prefix t (c # cs) \<or> contains cs t)"

definition term_matches :: "string \<Rightarrow> string \<Rightarrow> bool" where
  "term_matches t v =
     (if is_quoted t then lower v = lower (unquoted t) else contains (lower v) (lower t))"

definition str_filter :: "string \<Rightarrow> string \<Rightarrow> bool" where
  "str_filter spec v = list_ex (\<lambda>t. term_matches t v) (split_char CHR '','' spec)"

definition add_where_clause_str_opt ::
  "'r select \<Rightarrow> ('r \<Rightarrow> string) \<Rightarrow> string option \<Rightarrow> 'r select" where
  "add_where_clause_str_opt stmt field val =
     (case val of
        None \<Rightarrow> stmt
      | Some spec \<Rightarrow> stmt_where (\<lambda>r. str_filter spec (field r)) stmt)"

text \<open>
  Modelled from the spec: \<open>add_where_clause_int_opt\<close> is not among the sources.  The filter
  value is a list of integers, OR'd; the value \<open>-1\<close> matches the rows where the field is
  absent, any other value the rows where the field is that value.  No value, no criterion.
\<close>

definition int_filter :: "int list \<Rightarrow> int option \<Rightarrow> bool" where
  "int_filter vs x = list_ex (\<lambda>v. if v = - 1 then x = None else x = Some v) vs"

definition add_where_clause_int_opt ::
  "'r select \<Rightarrow> ('r \<Rightarrow> int option) \<Rightarrow> int list option \<Rightarrow> 'r select" where
  "add_where_clause_int_opt stmt field val =
     (case val of
        None \<Rightarrow> stmt
      | Some vs \<Rightarrow> stmt_where (\<lambda>r. int_filter vs (field r)) stmt)"

text \<open>
  Modelled from the spec: \<open>parse_nested_field\<close> is not among the sources.  It resolves a field
  path against the accessor table of an entity, here a list of paths with their accessors;
  a path the table does not hold is a resolution failure.
\<close>

definition parse_nested_field ::
  "(string \<times> ('r \<Rightarrow> sqlval)) list \<Rightarrow> string \<Rightarrow> exc + ('r \<Rightarrow> sqlval)" where
  "parse_nested_field model fieldstr =
     (case map_of model fieldstr of
        None \<Rightarrow> Inl (InvalidQuery fieldstr)
      | Some accessor \<Rightarrow> Inr accessor)"

definition opt_real :: "real option \<Rightarrow> sqlval" where
  "opt_real x = (case x of None \<Rightarrow> SqlNull | Some r \<Rightarrow> SqlReal r)"

definition opt_int :: "int option \<Rightarrow> sqlval" where
  "opt_int x = (case x of None \<Rightarrow> SqlNull | Some i \<Rightarrow> SqlInt i)"

definition opt_str :: "string option \<Rightarrow> sqlval" where
  "opt_str x = (case x of None \<Rightarrow> SqlNull | Some s \<Rightarrow> SqlStr s)"

text \<open>The accessor table of \<open>models.Printer\<close>: its six columns.\<close>

definition Printer_model :: "(string \<times> (Printer \<Rightarrow> sqlval)) list" where
  "Printer_model =
     [(''id'', \<lambda>p. SqlInt (pid p)),
      (''registered'', \<lambda>p. SqlInt (int (registered p))),
      (''name'', \<lambda>p. SqlStr (name p)),
      (''power_watts'', \<lambda>p. opt_real (power_watts p)),
      (''depreciation_cost_per_hour'', \<lambda>p. opt_real (depreciation_cost_per_hour p)),
      (''comment'', \<lambda>p. opt_str (comment p))]"

text \<open>
  The accessor table of \<open>models.CostCalculation\<close>: its nineteen columns, and the columns of
  the printer behind the relationship \<open>printer\<close>.
\<close>

definition CostCalculation_model :: "(string \<times> (CostCalculation \<Rightarrow> sqlval)) list" where
  "CostCalculation_model =
     [(''id'', \<lambda>c. SqlInt (cid (row c))),
      (''created'', \<lambda>c. SqlInt (int (created (row c)))),
      (''printer_id'', \<lambda>c. opt_int (printer_id (row c))),
      (''filament_id'', \<lambda>c. opt_int (filament_id (row c))),
      (''print_time_hours'', \<lambda>c. opt_real (print_time_hours (row c))),
      (''labor_time_hours'', \<lambda>c. opt_real (labor_time_hours (row c))),
      (''filament_weight_g'', \<lambda>c. opt_real (filament_weight_g (row c))),
      (''material_cost'', \<lambda>c. opt_real (material_cost (row c))),
      (''energy_cost'', \<lambda>c. opt_real (energy_cost (row c))),
      (''depreciation_cost'', \<lambda>c. opt_real (depreciation_cost (row c))),
      (''labor_cost'', \<lambda>c. opt_real (labor_cost (row c))),
      (''consumables_cost'', \<lambda>c. opt_real (consumables_cost (row c))),
      (''failure_rate'', \<lambda>c. opt_real (failure_rate (row c))),
      (''markup_rate'', \<lambda>c. opt_real (markup_rate (row c))),
      (''base_price'', \<lambda>c. opt_real (base_price (row c))),
      (''uplifted_price'', \<lambda>c. opt_real (uplifted_price (row c))),
      (''final_price'', \<lambda>c. opt_real (final_price (row c))),
      (''currency'', \<lambda>c. opt_str (currency (row c))),
      (''notes'', \<lambda>c. opt_str (notes_c (row c))),
      (''printer.id'', \<lambda>c. opt_int (map_option pid (printer c))),
      (''printer.registered'', \<lambda>c. opt_int (map_option (\<lambda>p. int (registered p)) (printer c))),
      (''printer.name'', \<lambda>c. opt_str (map_option name (printer c))),
      (''printer.power_watts'', \<lambda>c. opt_real (Option.bind (printer c) power_watts)),
      (''printer.depreciation_cost_per_hour'',
         \<lambda>c. opt_real (Option.bind (printer c) depreciation_cost_per_hour)),
      (''printer.comment'', \<lambda>c. opt_str (Option.bind (printer c) comment)),
      (''filament.id'', \<lambda>c. opt_int (map_option fid (filament c)))]"

subsection \<open>\<open>find\<close>\<close>

text \<open>
  The loop over \<open>sort_by.items()\<close>: every field is resolved and appended to the statement's
  \<open>ORDER BY\<close>; the first field that does not resolve ends the loop with its failure.
\<close>

fun order_by_items ::
  "(string \<times> ('r \<Rightarrow> sqlval)) list \<Rightarrow> (string \<times> SortOrder) list \<Rightarrow> 'r select
     \<Rightarrow> exc + 'r select" where
  "order_by_items model [] stmt = Inr stmt"
| "order_by_items model ((fieldstr, order) # items) stmt =
     (case parse_nested_field model fieldstr of
        Inl e \<Rightarrow> Inl e
      | Inr sort_field \<Rightarrow> order_by_items model items (stmt_order_by (sort_field, order) stmt))"

text \<open>
  \<open>find\<close> of \<open>spoolman/database/printer.py\<close> and of \<open>spoolman/database/cost.py\<close>.  The
  outer joins of the latter are \<open>load_cost\<close> on every row.
\<close>

definition printer_db_find ::
  "string option \<Rightarrow> (string \<times> SortOrder) list option \<Rightarrow> int option \<Rightarrow> int \<Rightarrow> session
     \<Rightarrow> (exc + Printer list \<times> int) \<times> session" where
  "printer_db_find name' sort_by limit offset s =
     (let stmt = add_where_clause_str_opt select_from name name';
          (total_count, stmt1, s1) =
            (case limit of
               None \<Rightarrow> (None, stmt, s)
             | Some l \<Rightarrow>
                 (Some (execute_count (printer_table s) stmt),
                  stmt_limit l (stmt_offset offset stmt),
                  db_executed CountStatement s))
      in case (case sort_by of
                 None \<Rightarrow> Inr stmt1
               | Some items \<Rightarrow> order_by_items Printer_model items stmt1) of
           Inl e \<Rightarrow> (Inl e, s1)
         | Inr stmt2 \<Rightarrow>
             (let s2 = db_executed SelectStatement s1;
                  items = unique (execute_select (printer_table s2) stmt2)
              in (Inr (items, (case total_count of
                                 None \<Rightarrow> int (length items)
                               | Some n \<Rightarrow> n)), s2)))"

definition cost_db_find ::
  "int list option \<Rightarrow> int list option \<Rightarrow> (string \<times> SortOrder) list option \<Rightarrow> int option
     \<Rightarrow> int \<Rightarrow> session \<Rightarrow> (exc + CostCalculation list \<times> int) \<times> session" where
  "cost_db_find printer_id' filament_id' sort_by limit offset s =
     (let stmt = add_where_clause_int_opt select_from (\<lambda>c. printer_id (row c)) printer_id';
          stmt = add_where_clause_int_opt stmt (\<lambda>c. filament_id (row c)) filament_id';
          (total_count, stmt1, s1) =
            (case limit of
               None \<Rightarrow> (None, stmt, s)
             | Some l \<Rightarrow>
                 (Some (execute_count (map (load_cost s) (cost_table s)) stmt),
                  stmt_limit l (stmt_offset offset stmt),
                  db_executed CountStatement s))
      in case (case sort_by of
                 None \<Rightarrow> Inr stmt1
               | Some items \<Rightarrow> order_by_items CostCalculation_model items stmt1) of
           Inl e \<Rightarrow> (Inl e, s1)
         | Inr stmt2 \<Rightarrow>
             (let s2 = db_executed SelectStatement s1;
                  items = unique (execute_select (map (load_cost s2) (cost_table s2)) stmt2)
              in (Inr (items, (case total_count of
                                 None \<Rightarrow> int (length items)
                               | Some n \<Rightarrow> n)), s2)))"

section \<open>The API layer\<close>

datatype 'a body = Items "'a list" | Item 'a | Message string

record 'a JSONResponse =
  status_code :: nat
  content :: "'a body"
  headers :: "(string \<times> string) list"

text \<open>\<open>d[k] = v\<close> on a dictionary in insertion order: a key already there keeps its place.\<close>

fun dict_set :: "'k \<Rightarrow> 'v \<Rightarrow> ('k \<times> 'v) list \<Rightarrow> ('k \<times> 'v) list" where
  "dict_set k v [] = [(k, v)]"
| "dict_set k v ((k', v') # d) = (if k' = k then (k, v) # d else (k', v') # dict_set k v d)"

text \<open>
  \<open>SortOrder[name]\<close>.  The enumeration is not among the sources; the code uses its members
  \<open>ASC\<close> and \<open>DESC\<close>, and the spec knows no other direction.
\<close>

definition SortOrder_by_name :: "string \<Rightarrow> exc + SortOrder" where
  "SortOrder_by_name n =
     (if n = ''ASC'' then Inr ASC else if n = ''DESC'' then Inr DESC else Inl (KeyError n))"

text \<open>
  The loop over \<open>sort.split(",")\<close> of both \<open>find\<close> endpoints; \<open>sort_by\<close> is the dictionary built
  so far.  Unpacking \<open>sort_item.split(":")\<close> into two names needs exactly two parts.
\<close>

fun parse_sort :: "string list \<Rightarrow> (string \<times> SortOrder) list \<Rightarrow> exc + (string \<times> SortOrder) list"
  where
  "parse_sort [] sort_by = Inr sort_by"
| "parse_sort (sort_item # sort_items) sort_by =
     (case split_char CHR '':'' sort_item of
        [field, direction] \<Rightarrow>
          (case SortOrder_by_name (upper direction) of
             Inl e \<Rightarrow> Inl e
           | Inr order \<Rightarrow> parse_sort sort_items (dict_set field order sort_by))
      | [_] \<Rightarrow> Inl (ValueError ''not enough values to unpack (expected 2, got 1)'')
      | _ \<Rightarrow> Inl (ValueError ''too many values to unpack (expected 2)''))"

definition sort_by_of :: "string option \<Rightarrow> exc + (string \<times> SortOrder) list" where
  "sort_by_of sort' =
     (case sort' of None \<Rightarrow> Inr [] | Some v \<Rightarrow> parse_sort (split_char CHR '','' v) [])"


text \<open>\<open>[int(v) for v in value.split(",")]\<close>: the first value that is no integer raises.\<close>

fun ints_of :: "string list \<Rightarrow> exc + int list" where
  "ints_of [] = Inr []"
| "ints_of (v # vs) =
     (case py_int v of
        Inl e \<Rightarrow> Inl e
      | Inr i \<Rightarrow> (case ints_of vs of Inl e \<Rightarrow> Inl e | Inr is \<Rightarrow> Inr (i # is)))"

definition parse_int_csv :: "string option \<Rightarrow> exc + int list option" where
  "parse_int_csv val =
     (case val of
        None \<Rightarrow> Inr None
      | Some v \<Rightarrow> map_sum (\<lambda>e. e) Some (ints_of (split_char CHR '','' v)))"

text \<open>The \<open>pattern\<close> of the two id parameters, \<open>^-?\d+(,-?\d+)*$\<close>.\<close>

definition signed_digits :: "string \<Rightarrow> bool" where
  "signed_digits v =
     (case v of
        [] \<Rightarrow> False
      | c # cs \<Rightarrow> if c = CHR ''-'' then cs \<noteq> [] \<and> list_all is_digit cs
                  else list_all is_digit (c # cs))"

definition id_pattern :: "string option \<Rightarrow> bool" where
  "id_pattern val =
     (case val of None \<Rightarrow> True | Some v \<Rightarrow> list_all signed_digits (split_char CHR '','' v))"

text \<open>
  \<open>find\<close> of \<open>spoolman/api/v1/cost.py\<close>; a parameter that its pattern refuses never reaches the
  function.
\<close>

definition api_cost_find ::
  "('w, 'a) env \<Rightarrow> string option \<Rightarrow> string option \<Rightarrow> string option \<Rightarrow> int option \<Rightarrow> int
     \<Rightarrow> session \<Rightarrow> (exc + 'a JSONResponse) \<times> session" where
  "api_cost_find E printer_id' filament_id' sort' limit offset s =
     (if \<not> id_pattern printer_id' then (Inl (RequestValidationError ''printer_id''), s)
      else if \<not> id_pattern filament_id' then (Inl (RequestValidationError ''filament_id''), s)
      else
        (case sort_by_of sort' of
           Inl e \<Rightarrow> (Inl e, s)
         | Inr sort_by \<Rightarrow>
             (case parse_int_csv printer_id' of
                Inl e \<Rightarrow> (Inl e, s)
              | Inr printer_ids \<Rightarrow>
                  (case parse_int_csv filament_id' of
                     Inl e \<Rightarrow> (Inl e, s)
                   | Inr filament_ids \<Rightarrow>
                       (case cost_db_find printer_ids filament_ids (Some sort_by) limit offset s of
                          (Inl e, s') \<Rightarrow> (Inl e, s')
                        | (Inr (db_items, total_count), s') \<Rightarrow>
                            (Inr \<lparr>status_code = 200,
                                  content =
                                    Items (map (\<lambda>c. CostCalculation_from_db E c None None)
                                             db_items),
                                  headers = [(''x-total-count'', str_int total_count)]\<rparr>,
                             s'))))))"

subsection \<open>Calls with keyword arguments\<close>

text \<open>
  Binding a call that passes only keyword arguments to a function whose parameters are all
  keyword-only: a keyword the function does not declare is a \<open>TypeError\<close>, and so is a
  parameter without default that the call leaves out.
\<close>

definition bind_keywords :: "string \<Rightarrow> string list \<Rightarrow> string list \<Rightarrow> string list \<Rightarrow> exc option"
  where
  "bind_keywords fname required optional supplied =
     (case filter (\<lambda>k. k \<notin> set (required @ optional)) supplied of
        k # _ \<Rightarrow>
          Some (TypeError (fname @ ''() got an unexpected keyword argument '' @ k))
      | [] \<Rightarrow>
          (case filter (\<lambda>k. k \<notin> set supplied) required of
             k # _ \<Rightarrow>
               Some (TypeError (fname @ ''() missing required keyword-only argument '' @ k))
           | [] \<Rightarrow> None))"

text \<open>The seventeen parameters with a default that \<open>create\<close> and \<open>update\<close> of
  \<open>spoolman.database.cost\<close> declare after \<open>db\<close> (and \<open>calculation_id\<close>).\<close>

definition cost_db_optional_parameters :: "string list" where
  "cost_db_optional_parameters =
     [''printer_id'', ''filament_id'', ''print_time_hours'', ''labor_time_hours'',
      ''filament_weight_g'', ''material_cost'', ''energy_cost'', ''depreciation_cost'',
      ''labor_cost'', ''consumables_cost'', ''failure_rate'', ''markup_rate'', ''base_price'',
      ''uplifted_price'', ''final_price'', ''currency'', ''notes'']"

text \<open>The keywords the endpoint \<open>create\<close> passes, in the order of the call.\<close>

definition api_cost_create_keywords :: "string list" where
  "api_cost_create_keywords =
     [''db'', ''printer_id'', ''filament_id'', ''print_time_hours'', ''labor_time_hours'',
      ''filament_weight_g'', ''material_cost'', ''energy_cost'', ''energy_cost_per_kwh'',
      ''depreciation_cost'', ''labor_cost'', ''labor_cost_per_hour'', ''consumables_cost'',
      ''failure_rate'', ''markup_rate'', ''base_price'', ''uplifted_price'', ''final_price'',
      ''currency'', ''item_names'', ''notes'']"

text \<open>The keywords the endpoint \<open>update\<close> passes, in the order of the call.\<close>

definition api_cost_update_keywords :: "string list" where
  "api_cost_update_keywords =
     [''db'', ''calculation_id'', ''printer_id'', ''filament_id'', ''print_time_hours'',
      ''labor_time_hours'', ''filament_weight_g'', ''material_cost'', ''energy_cost'',
      ''energy_cost_per_kwh'', ''depreciation_cost'', ''labor_cost'', ''labor_cost_per_hour'',
      ''consumables_cost'', ''failure_rate'', ''markup_rate'', ''base_price'',
      ''uplifted_price'', ''final_price'', ''currency'', ''item_names'', ''notes'']"

text \<open>The request body \<open>CostCalculationParameters\<close>: the seventeen fields and three more.\<close>

record CostCalculationParameters = cost_fields +
  energy_cost_per_kwh :: "real option"
  labor_cost_per_hour :: "real option"
  item_names :: "string option"

text \<open>
  \<open>create\<close> and \<open>update\<close> of \<open>spoolman/api/v1/cost.py\<close>: the call of the database layer with
  the keywords above, \<open>except ItemNotFoundError\<close> around it, and the response.
\<close>

definition api_cost_create ::
  "('w, 'a) env \<Rightarrow> CostCalculationParameters \<Rightarrow> ('w, 'a) world
     \<Rightarrow> (exc + 'a JSONResponse) \<times> ('w, 'a) world" where
  "api_cost_create E body w =
     (case bind_keywords ''create'' [''db''] cost_db_optional_parameters
             api_cost_create_keywords of
        Some e \<Rightarrow> (Inl e, w)
      | None \<Rightarrow>
          (case cost_db_create E (cost_fields.truncate body) w of
             (Inl (ItemNotFoundError msg), w') \<Rightarrow>
               (Inr \<lparr>status_code = 404, content = Message msg, headers = []\<rparr>, w')
           | (Inl e, w') \<Rightarrow> (Inl e, w')
           | (Inr calculation, w') \<Rightarrow>
               (Inr \<lparr>status_code = 201,
                     content = Item (CostCalculation_from_db E calculation None None),
                     headers = []\<rparr>, w')))"

definition api_cost_update ::
  "('w, 'a) env \<Rightarrow> int \<Rightarrow> CostCalculationParameters \<Rightarrow> ('w, 'a) world
     \<Rightarrow> (exc + 'a JSONResponse) \<times> ('w, 'a) world" where
  "api_cost_update E calculation_id body w =
     (case bind_keywords ''update'' [''db'', ''calculation_id''] cost_db_optional_parameters
             api_cost_update_keywords of
        Some e \<Rightarrow> (Inl e, w)
      | None \<Rightarrow>
          (case cost_db_update E calculation_id (cost_fields.truncate body) w of
             (Inl (ItemNotFoundError msg), w') \<Rightarrow>
               (Inr \<lparr>status_code = 404, content = Message msg, headers = []\<rparr>, w')
           | (Inl e, w') \<Rightarrow> (Inl e, w')
           | (Inr calculation, w') \<Rightarrow>
               (Inr \<lparr>status_code = 200,
                     content = Item (CostCalculation_from_db E calculation None None),
                     headers = []\<rparr>, w')))"

section \<open>The websocket manager and the sessions\<close>

type_synonym conn = nat

text \<open>
  Modelled from the spec: the module \<open>spoolman.ws\<close> with \<open>websocket_manager\<close> is not among
  the sources.  The registry maps a topic to the connections subscribed to it.  \<open>connect\<close>
  registers a connection under a topic, \<open>disconnect\<close> removes that pair and is a no-op when
  it is not there.  \<open>send\<close> delivers the event to the subscribers of the topic and of every
  prefix of it; a subscriber whose stream fails is removed from the registry, and the others
  are served all the same.
\<close>

record 'a manager_state =
  registry :: "topic \<Rightarrow> conn list"
  broken :: "conn \<Rightarrow> bool"
  outbox :: "conn \<Rightarrow> 'a Event list"

definition connect :: "topic \<Rightarrow> conn \<Rightarrow> 'a manager_state \<Rightarrow> 'a manager_state" where
  "connect tp ws m =
     m\<lparr>registry := (registry m)
          (tp := (if ws \<in> set (registry m tp) then registry m tp else registry m tp @ [ws]))\<rparr>"

definition disconnect :: "topic \<Rightarrow> conn \<Rightarrow> 'a manager_state \<Rightarrow> 'a manager_state" where
  "disconnect tp ws m = m\<lparr>registry := (registry m)(tp := removeAll ws (registry m tp))\<rparr>"

definition deliver :: "'a Event \<Rightarrow> conn \<Rightarrow> 'a manager_state \<Rightarrow> 'a manager_state" where
  "deliver evt ws m =
     (if broken m ws then m\<lparr>registry := (\<lambda>tp. removeAll ws (registry m tp))\<rparr>
      else m\<lparr>outbox := (outbox m)(ws := outbox m ws @ [evt])\<rparr>)"

definition recipients :: "'a manager_state \<Rightarrow> topic \<Rightarrow> conn list" where
  "recipients m tp = concat (map (registry m) (prefixes tp))"

definition publish :: "topic \<Rightarrow> 'a Event \<Rightarrow> 'a manager_state \<Rightarrow> 'a manager_state" where
  "publish tp evt m = fold (deliver evt) (recipients m tp) m"

definition websocket_manager_send ::
  "topic \<Rightarrow> 'a Event \<Rightarrow> 'a manager_state \<Rightarrow> exc option \<times> 'a manager_state" where
  "websocket_manager_send tp evt m = (None, publish tp evt m)"

subsection \<open>The websocket endpoints\<close>

text \<open>
  What an \<open>await\<close> on the websocket or on \<open>asyncio.sleep\<close> does when the handler reaches it:
  it returns (for \<open>receive_text\<close>, the text), or it raises.  A handler runs against the list
  of these outcomes; when the list ends, the handler is still waiting.
\<close>

datatype awaited = Returns string | Raises exc

datatype outcome = Waiting | Returned | Raised exc

text \<open>
  The loop \<open>while True: sleep; if receive_text(): send_json\<close>.  It ends only with an
  exception, which is the result; \<open>None\<close> when it is still waiting.
\<close>

fun heartbeat :: "awaited list \<Rightarrow> exc option" where
  "heartbeat [] = None"
| "heartbeat (Raises e # _) = Some e"
| "heartbeat [Returns _] = None"
| "heartbeat (Returns _ # Raises e # _) = Some e"
| "heartbeat (Returns _ # Returns text # rest) =
     (if text \<noteq> [] then
        (case rest of
           [] \<Rightarrow> None
         | Raises e # _ \<Rightarrow> Some e
         | Returns _ # rest' \<Rightarrow> heartbeat rest')
      else heartbeat rest)"

text \<open>
  The body shared by the four handlers: \<open>accept\<close>, \<open>connect\<close>, the loop, and
  \<open>except WebSocketDisconnect\<close> with its \<open>disconnect\<close>.
\<close>

definition notify_handler ::
  "topic \<Rightarrow> conn \<Rightarrow> awaited list \<Rightarrow> 'a manager_state \<Rightarrow> outcome \<times> 'a manager_state" where
  "notify_handler tp ws script m =
     (case script of
        [] \<Rightarrow> (Waiting, m)
      | Raises e # _ \<Rightarrow> (Raised e, m)
      | Returns _ # rest \<Rightarrow>
          (let m1 = connect tp ws m
           in case heartbeat rest of
                None \<Rightarrow> (Waiting, m1)
              | Some e \<Rightarrow>
                  if e = WebSocketDisconnect then (Returned, disconnect tp ws m1)
                  else (Raised e, m1)))"

definition printer_notify_any ::
  "conn \<Rightarrow> awaited list \<Rightarrow> 'a manager_state \<Rightarrow> outcome \<times> 'a manager_state" where
  "printer_notify_any ws = notify_handler [''printer''] ws"

definition printer_notify ::
  "conn \<Rightarrow> string \<Rightarrow> awaited list \<Rightarrow> 'a manager_state \<Rightarrow> outcome \<times> 'a manager_state" where
  "printer_notify ws printer_id' = notify_handler [''printer'', printer_id'] ws"

definition cost_notify_any ::
  "conn \<Rightarrow> awaited list \<Rightarrow> 'a manager_state \<Rightarrow> outcome \<times> 'a manager_state" where
  "cost_notify_any ws = notify_handler [''cost''] ws"

definition cost_notify ::
  "conn \<Rightarrow> string \<Rightarrow> awaited list \<Rightarrow> 'a manager_state \<Rightarrow> outcome \<times> 'a manager_state" where
  "cost_notify ws calculation_id = notify_handler [''cost'', calculation_id] ws"

subsection \<open>What the statements of \<open>find\<close> select\<close>

text \<open>
  The \<open>ORDER BY\<close> criteria that a dictionary \<open>sort_by\<close> resolves to: item by item, the
  accessor of the field and the direction.
\<close>

definition clauses_of ::
  "(string \<times> ('r \<Rightarrow> sqlval)) list \<Rightarrow> (string \<times> SortOrder) list
     \<Rightarrow> (('r \<Rightarrow> sqlval) \<times> SortOrder) list \<Rightarrow> bool" where
  "clauses_of model items cs =
     list_all2 (\<lambda>item c. map_of model (fst item) = Some (fst c) \<and> snd c = snd item) items cs"

text \<open>The \<open>where\<close> criteria of the two \<open>find\<close> functions.\<close>

definition printer_filter :: "string option \<Rightarrow> Printer \<Rightarrow> bool" where
  "printer_filter name' = whereclause (add_where_clause_str_opt select_from name name')"

definition cost_filter :: "int list option \<Rightarrow> int list option \<Rightarrow> CostCalculation \<Rightarrow> bool" where
  "cost_filter printer_id' filament_id' =
     whereclause
       (add_where_clause_int_opt
          (add_where_clause_int_opt select_from (\<lambda>c. printer_id (row c)) printer_id')
          (\<lambda>c. filament_id (row c)) filament_id')"

subsection \<open>A sort parameter written from pairs\<close>

text \<open>
  The text of a \<open>sort\<close> query parameter that lists the given pairs: \<open>field:direction\<close> items
  joined by commas.
\<close>

fun direction_name :: "SortOrder \<Rightarrow> string" where
  "direction_name ASC = ''asc''"
| "direction_name DESC = ''desc''"


definition sort_item :: "string \<times> SortOrder \<Rightarrow> string" where
  "sort_item p = fst p @ CHR '':'' # direction_name (snd p)"


section \<open>Example data\<close>

text \<open>A term in double quotes.\<close>

definition quoted :: "string \<Rightarrow> string" where
  "quoted t = CHR 0x22 # t @ [CHR 0x22]"


text \<open>An instance of the payload: the API models as plain copies of what they are built from.\<close>

datatype snapshot =
    PrinterSnapshot Printer
  | FilamentSnapshot Filament
  | CostSnapshot CostRow "snapshot option" "snapshot option"

definition snapshot_env :: "(snapshot manager_state, snapshot) env" where
  "snapshot_env =
     \<lparr>ws_send = websocket_manager_send,
      Printer_from_db = PrinterSnapshot,
      Filament_from_db = FilamentSnapshot,
      CostCalculation_from_db = (\<lambda>c. CostSnapshot (row c))\<rparr>"

text \<open>The same with a manager whose \<open>send\<close> always raises.\<close>

definition failing_env :: "(snapshot manager_state, snapshot) env" where
  "failing_env =
     snapshot_env\<lparr>ws_send := (\<lambda>tp evt m. (Some (RuntimeError ''stream closed''), m))\<rparr>"

definition example_printer :: "int \<Rightarrow> string \<Rightarrow> real option \<Rightarrow> Printer" where
  "example_printer i n pw =
     \<lparr>pid = i, registered = 1700000000000000, name = n, power_watts = pw,
      depreciation_cost_per_hour = None, comment = None\<rparr>"

definition example_printers :: "Printer list" where
  "example_printers =
     [example_printer 1 ''Exact Name'' (Some 250),
      example_printer 2 ''Exact Name Pro'' (Some 120),
      example_printer 3 ''Mini'' (Some 250),
      example_printer 4 ''Voron'' (Some 120),
      example_printer 5 ''Ender'' None]"

definition example_cost :: "int \<Rightarrow> int option \<Rightarrow> int option \<Rightarrow> CostRow" where
  "example_cost i p f =
     \<lparr>printer_id = p, filament_id = f, print_time_hours = Some 2, labor_time_hours = None,
      filament_weight_g = None, material_cost = None, energy_cost = None,
      depreciation_cost = None, labor_cost = None, consumables_cost = None,
      failure_rate = None, markup_rate = None, base_price = None, uplifted_price = None,
      final_price = None, currency = Some ''EUR'', notes_c = None,
      cid = i, created = 1700000000000000\<rparr>"

definition example_costs :: "CostRow list" where
  "example_costs =
     [example_cost 1 (Some 1) None,
      example_cost 2 None (Some 1),
      example_cost 3 (Some 2) (Some 1),
      example_cost 4 None None]"

definition example_session :: session where
  "example_session =
     \<lparr>printer_table = example_printers,
      filament_table = [\<lparr>fid = 1, filament_name = Some ''PLA''\<rparr>],
      cost_table = example_costs,
      pending = [],
      executed = []\<rparr>"

definition empty_manager :: "snapshot manager_state" where
  "empty_manager = \<lparr>registry = (\<lambda>_. []), broken = (\<lambda>_. False), outbox = (\<lambda>_. [])\<rparr>"

definition example_world :: "(snapshot manager_state, snapshot) world" where
  "example_world =
     \<lparr>db = example_session, manager = empty_manager, published = [], logged = [],
      utcnow = 1700000000123456\<rparr>"

definition example_fields :: cost_fields where
  "example_fields =
     \<lparr>printer_id = None, filament_id = None, print_time_hours = Some 3,
      labor_time_hours = None, filament_weight_g = Some 40, material_cost = None,
      energy_cost = None, depreciation_cost = None, labor_cost = None,
      consumables_cost = None, failure_rate = None, markup_rate = None, base_price = None,
      uplifted_price = None, final_price = None, currency = None, notes_c = None\<rparr>"

definition example_body :: CostCalculationParameters where
  "example_body =
     cost_fields.extend example_fields
       (CostCalculationParameters.fields (Some 0.3) (Some 20) (Some ''bracket''))"

text \<open>
  Three sessions that have connected and wait: 7 on the collection of printers, 8 on
  printer 1, 9 on the collection of cost calculations.
\<close>

definition example_manager :: "snapshot manager_state" where
  "example_manager =
     snd (cost_notify_any 9 [Returns []]
       (snd (printer_notify 8 ''1'' [Returns []]
         (snd (printer_notify_any 7 [Returns []] empty_manager)))))"

definition example_event :: "snapshot Event" where
  "example_event =
     \<lparr>event_type = UPDATED, resource = ''printer'', date = 1700000000123456,
      payload = PrinterSnapshot (example_printer 1 ''Exact Name'' (Some 250))\<rparr>"

section \<open>Properties\<close>

subsection \<open>Lookups by key\<close>

lemma find_key_Some: "i \<in> f ` set xs \<Longrightarrow> \<exists>r. find (\<lambda>r. f r = i) xs = Some r"
  by (induction xs) auto

lemma find_key_None: "i \<notin> f ` set xs \<Longrightarrow> find (\<lambda>r. f r = i) xs = None"
  by (auto simp: find_None_iff)

subsection \<open>The emitters\<close>


lemma send_logged_caught:
  assumes "\<forall>tp evt m e m'. ws_send E tp evt m = (Some e, m') \<longrightarrow> is_Exception e"
  shows "fst (send_logged E tp evt w) = None"
proof (cases "ws_send E tp evt (manager w)")
  case (Pair r m)
  show ?thesis
  proof (cases r)
    case None
    with Pair show ?thesis by (simp add: send_logged_def)
  next
    case (Some e)
    with Pair assms have "is_Exception e" by blast
    with Pair Some show ?thesis by (simp add: send_logged_def)
  qed
qed

lemma printer_changed_caught:
  assumes "\<forall>tp evt m e m'. ws_send E tp evt m = (Some e, m') \<longrightarrow> is_Exception e"
  shows "\<exists>w'. printer_changed E p typ w = (None, w')"
  using send_logged_caught [OF assms] unfolding printer_changed_def
  by (metis prod.collapse)

lemma cost_changed_caught:
  assumes "\<forall>tp evt m e m'. ws_send E tp evt m = (Some e, m') \<longrightarrow> is_Exception e"
  shows "\<exists>w'. cost_changed E c typ w = (None, w')"
  using send_logged_caught [OF assms] unfolding cost_changed_def
  by (metis prod.collapse)



subsection \<open>Mutations return in spite of a failing notification\<close>

lemma printer_create_returns:
  assumes "\<forall>tp evt m e m'. ws_send E tp evt m = (Some e, m') \<longrightarrow> is_Exception e"
  shows "\<exists>p w'. printer_db_create E n pw dc cm w = (Inr p, w')"
proof -
  define p where "p = \<lparr>pid = 0, registered = whole_seconds (utcnow w), name = n,
    power_watts = pw, depreciation_cost_per_hour = dc, comment = cm\<rparr>"
  define s2 where "s2 = db_commit (db_add (AddPrinter p) (db w))"
  obtain w' where "printer_changed E (db_refresh_printer s2 p) ADDED (w\<lparr>db := s2\<rparr>) = (None, w')"
    using printer_changed_caught [OF assms] by blast
  then show ?thesis
    by (simp add: printer_db_create_def Let_def p_def s2_def)
qed

lemma printer_update_returns:
  assumes "\<forall>tp evt m e m'. ws_send E tp evt m = (Some e, m') \<longrightarrow> is_Exception e"
    and h: "i \<in> pid ` set (printer_table (db w))"
  shows "\<exists>p w'. printer_db_update E i n' pw dc cm w = (Inr p, w')"
proof -
  obtain p where p: "printer_db_get_by_id (db w) i = Inr p"
    using find_key_Some [OF h] by (auto simp: printer_db_get_by_id_def db_get_printer_def)
  define p' where "p' = p\<lparr>name := (case n' of None \<Rightarrow> name p | Some n \<Rightarrow> n),
                     power_watts := if_not_None pw (power_watts p),
                     depreciation_cost_per_hour := if_not_None dc (depreciation_cost_per_hour p),
                     comment := if_not_None cm (comment p)\<rparr>"
  obtain w' where "printer_changed E p' UPDATED
      (w\<lparr>db := db_commit (db_add (DirtyPrinter p') (db w))\<rparr>) = (None, w')"
    using printer_changed_caught [OF assms(1)] by blast
  then show ?thesis
    by (simp add: printer_db_update_def Let_def p p'_def)
qed

lemma printer_delete_raises:
  assumes h: "i \<in> pid ` set (printer_table (db w))"
  shows "\<exists>msg. printer_db_delete E i w
           = (Inl (InvalidRequestError msg), w\<lparr>db := db_executed SelectStatement (db w)\<rparr>)"
proof -
  obtain p where p: "db_get_printer (db_executed SelectStatement (db w)) i = Some p"
    using find_key_Some [OF h] by (auto simp: db_get_printer_def db_executed_def)
  then show ?thesis
    by (simp add: printer_db_delete_def Let_def scalar_one_of_joined_collection_def)
qed


lemma cost_create_returns:
  assumes "\<forall>tp evt m e m'. ws_send E tp evt m = (Some e, m') \<longrightarrow> is_Exception e"
    and h: "(\<forall>j. printer_id kw = Some j \<longrightarrow> j \<in> pid ` set (printer_table (db w)))
        \<and> (\<forall>j. filament_id kw = Some j \<longrightarrow> j \<in> fid ` set (filament_table (db w)))"
  shows "\<exists>c w'. cost_db_create E kw w = (Inr c, w')"
proof -
  obtain po where po: "(case printer_id kw of None \<Rightarrow> Inr None
          | Some i \<Rightarrow> map_sum (\<lambda>e. e) Some (printer_db_get_by_id (db w) i)) = Inr po"
    using h find_key_Some [of _ pid "printer_table (db w)"]
    by (cases "printer_id kw") (fastforce simp: printer_db_get_by_id_def db_get_printer_def)+
  obtain fo where fo: "(case filament_id kw of None \<Rightarrow> Inr None
               | Some i \<Rightarrow>
                   (case db_get_filament (db w) i of
                      None \<Rightarrow> Inl (ItemNotFoundError
                                    (''No filament with ID '' @ str_int i @ '' found.''))
                    | Some f \<Rightarrow> Inr (Some f))) = Inr fo"
    using h find_key_Some [of _ fid "filament_table (db w)"]
    by (cases "filament_id kw") (fastforce simp: db_get_filament_def)+
  define c where "c = \<lparr>row = cost_fields.extend
                             (kw\<lparr>printer_id := None, filament_id := None\<rparr>)
                             (CostRow.fields 0 (whole_seconds (utcnow w))),
                     printer = po, filament = fo\<rparr>"
  define s2 where "s2 = db_commit (db_add (AddCost c) (db w))"
  obtain w' where "cost_changed E (db_refresh_cost s2 c) ADDED (w\<lparr>db := s2\<rparr>) = (None, w')"
    using cost_changed_caught [OF assms(1)] by blast
  then show ?thesis
    by (simp add: cost_db_create_def Let_def po fo c_def s2_def)
qed

lemma cost_update_returns:
  assumes "\<forall>tp evt m e m'. ws_send E tp evt m = (Some e, m') \<longrightarrow> is_Exception e"
    and h: "k \<in> cid ` set (cost_table (db w))
        \<and> (\<forall>j. printer_id kw = Some j \<longrightarrow> j \<in> pid ` set (printer_table (db w)))
        \<and> (\<forall>j. filament_id kw = Some j \<longrightarrow> j \<in> fid ` set (filament_table (db w)))"
  shows "\<exists>c w'. cost_db_update E k kw w = (Inr c, w')"
proof -
  obtain c0 where c0: "cost_db_get_by_id (db w) k = Inr c0"
    using h find_key_Some [of k cid "cost_table (db w)"]
    by (auto simp: cost_db_get_by_id_def db_get_cost_def)
  obtain c1 where c1: "(case printer_id kw of
                 None \<Rightarrow> Inr c0
               | Some i \<Rightarrow>
                   map_sum (\<lambda>e. e) (\<lambda>p. c0\<lparr>printer := Some p\<rparr>)
                     (printer_db_get_by_id (db w) i)) = Inr c1"
    using h find_key_Some [of _ pid "printer_table (db w)"]
    by (cases "printer_id kw") (fastforce simp: printer_db_get_by_id_def db_get_printer_def)+
  obtain c2 where c2: "(case filament_id kw of
                      None \<Rightarrow> Inr c1
                    | Some i \<Rightarrow>
                        (case db_get_filament (db w) i of
                           None \<Rightarrow> Inl (ItemNotFoundError
                                         (''No filament with ID '' @ str_int i @ '' found.''))
                         | Some f \<Rightarrow> Inr (c1\<lparr>filament := Some f\<rparr>))) = Inr c2"
    using h find_key_Some [of _ fid "filament_table (db w)"]
    by (cases "filament_id kw") (fastforce simp: db_get_filament_def)+
  define c3 where "c3 = c2\<lparr>row := assign_fields kw (row c2)\<rparr>"
  obtain w' where "cost_changed E (c3\<lparr>row := flushed_row c3\<rparr>) UPDATED
      (w\<lparr>db := db_commit (db_add (DirtyCost c3) (db w))\<rparr>) = (None, w')"
    using cost_changed_caught [OF assms(1)] by blast
  then show ?thesis
    by (simp add: cost_db_update_def Let_def c0 c1 c2 c3_def)
qed

lemma cost_delete_returns:
  assumes "\<forall>tp evt m e m'. ws_send E tp evt m = (Some e, m') \<longrightarrow> is_Exception e"
    and h: "k \<in> cid ` set (cost_table (db w))"
  shows "\<exists>w'. cost_db_delete E k w = (Inr (), w')"
proof -
  define s0 where "s0 = db_executed SelectStatement (db w)"
  obtain c where c: "db_get_cost s0 k = Some c"
    using find_key_Some [OF h] by (auto simp: db_get_cost_def db_executed_def s0_def)
  obtain w' where "cost_changed E c DELETED
      (w\<lparr>db := db_commit (db_add (DeleteCost c) s0)\<rparr>) = (None, w')"
    using cost_changed_caught [OF assms(1)] by blast
  then show ?thesis
    using c by (simp add: cost_db_delete_def Let_def s0_def)
qed

text \<open>
  C6.  When \<open>websocket_manager.send\<close> fails with an \<open>Exception\<close> (a serialization error, a
  broken subscriber stream), however and whenever it does, no mutation of the database layer
  passes the failure on: \<open>create\<close> and \<open>update\<close> of printers, and \<open>create\<close>, \<open>update\<close> and
  \<open>delete\<close> of cost calculations, return their normal result whenever the rows they refer to
  exist.  \<open>delete\<close> of an existing printer is no successful mutation: it ends with
  \<open>InvalidRequestError\<close> at \<open>scalar_one()\<close>, before any notification.
\<close>

theorem notification_failure_never_propagates:
  assumes "\<forall>tp evt m e m'. ws_send E tp evt m = (Some e, m') \<longrightarrow> is_Exception e"
  shows "(\<exists>p w'. printer_db_create E n pw dc cm w = (Inr p, w'))
       \<and> (i \<in> pid ` set (printer_table (db w))
            \<longrightarrow> (\<exists>p w'. printer_db_update E i n' pw dc cm w = (Inr p, w')))
       \<and> (i \<in> pid ` set (printer_table (db w))
            \<longrightarrow> (\<exists>msg. printer_db_delete E i w
                       = (Inl (InvalidRequestError msg),
                          w\<lparr>db := db_executed SelectStatement (db w)\<rparr>)))
       \<and> ((\<forall>j. printer_id kw = Some j \<longrightarrow> j \<in> pid ` set (printer_table (db w)))
            \<and> (\<forall>j. filament_id kw = Some j \<longrightarrow> j \<in> fid ` set (filament_table (db w)))
            \<longrightarrow> (\<exists>c w'. cost_db_create E kw w = (Inr c, w')))
       \<and> (k \<in> cid ` set (cost_table (db w))
            \<and> (\<forall>j. printer_id kw = Some j \<longrightarrow> j \<in> pid ` set (printer_table (db w)))
            \<and> (\<forall>j. filament_id kw = Some j \<longrightarrow> j \<in> fid ` set (filament_table (db w)))
            \<longrightarrow> (\<exists>c w'. cost_db_update E k kw w = (Inr c, w')))
       \<and> (k \<in> cid ` set (cost_table (db w))
            \<longrightarrow> (\<exists>w'. cost_db_delete E k w = (Inr (), w')))"
  apply (intro conjI impI)
  subgoal by (rule printer_create_returns [OF assms])
  subgoal by (rule printer_update_returns [OF assms])
  subgoal by (rule printer_delete_raises)
  subgoal by (rule cost_create_returns [OF assms])
  subgoal by (rule cost_update_returns [OF assms])
  subgoal by (rule cost_delete_returns [OF assms])
  done

theorem notification_failure_never_propagates_witness:
  "fst (ws_send failing_env [''printer'', ''1'']
          \<lparr>event_type = ADDED, resource = ''printer'', date = 0,
           payload = PrinterSnapshot (example_printer 1 ''Mini'' None)\<rparr> empty_manager)
     = Some (RuntimeError ''stream closed'')
   \<and> (\<exists>p w'. printer_db_create failing_env ''Prusa'' None None None example_world = (Inr p, w'))
   \<and> (\<exists>p w'. printer_db_update failing_env 1 (Some ''Prusa'') None None None example_world
                = (Inr p, w'))
   \<and> (\<exists>msg. printer_db_delete failing_env 1 example_world
              = (Inl (InvalidRequestError msg),
                 example_world\<lparr>db := db_executed SelectStatement (db example_world)\<rparr>))
   \<and> (\<exists>c w'. cost_db_create failing_env example_fields example_world = (Inr c, w'))
   \<and> (\<exists>c w'. cost_db_update failing_env 1 example_fields example_world = (Inr c, w'))
   \<and> (\<exists>w'. cost_db_delete failing_env 1 example_world = (Inr (), w'))"
proof -
  have raises: "\<forall>tp evt m e m'. ws_send failing_env tp evt m = (Some e, m') \<longrightarrow> is_Exception e"
    by (auto simp: failing_env_def)
  have p: "1 \<in> pid ` set (printer_table (db example_world))"
    by (simp add: example_world_def example_session_def example_printers_def example_printer_def)
  have c: "1 \<in> cid ` set (cost_table (db example_world))"
    by (simp add: example_world_def example_session_def example_costs_def example_cost_def)
  have f: "printer_id example_fields = None" "filament_id example_fields = None"
    by (simp_all add: example_fields_def)
  show ?thesis
    using p c f
      notification_failure_never_propagates [OF raises,
        where w = example_world and i = 1 and k = 1 and kw = example_fields
          and n = "''Prusa''" and n' = "Some ''Prusa''" and pw = None and dc = None and cm = None]
    by (simp add: failing_env_def)
qed

subsection \<open>A failed reference\<close>

text \<open>
  C5.  A \<open>create\<close> of a cost calculation whose \<open>printer_id\<close> or \<open>filament_id\<close> is the key of
  no row fails with \<open>ItemNotFoundError\<close> and leaves everything as it was: no row in the
  table, nothing added to the session, no call of \<open>send\<close>.
\<close>

theorem cost_create_missing_reference:
  assumes "(\<exists>i. printer_id kw = Some i \<and> i \<notin> pid ` set (printer_table (db w)))
         \<or> (\<exists>i. filament_id kw = Some i \<and> i \<notin> fid ` set (filament_table (db w)))"
  shows "\<exists>msg w'. cost_db_create E kw w = (Inl (ItemNotFoundError msg), w')
           \<and> cost_table (db w') = cost_table (db w)
           \<and> pending (db w') = pending (db w)
           \<and> published w' = published w
           \<and> w' = w"
  using assms
  by (auto simp add: cost_db_create_def printer_db_get_by_id_def db_get_printer_def
      db_get_filament_def find_key_None split: option.splits sum.splits)

theorem cost_create_missing_reference_witness:
  "printer_id (example_fields\<lparr>printer_id := Some 9\<rparr>) = Some 9
   \<and> 9 \<notin> pid ` set (printer_table (db example_world))
   \<and> (\<exists>msg. cost_db_create snapshot_env (example_fields\<lparr>printer_id := Some 9\<rparr>) example_world
              = (Inl (ItemNotFoundError msg), example_world))
   \<and> (\<exists>msg. cost_db_create snapshot_env (example_fields\<lparr>filament_id := Some 2\<rparr>) example_world
              = (Inl (ItemNotFoundError msg), example_world))"
proof -
  have p: "9 \<notin> pid ` set (printer_table (db example_world))"
    by (simp add: example_world_def example_session_def example_printers_def example_printer_def)
  have f: "2 \<notin> fid ` set (filament_table (db example_world))"
    by (simp add: example_world_def example_session_def)
  show ?thesis
    using p f
      cost_create_missing_reference
        [of "example_fields\<lparr>printer_id := Some 9\<rparr>" example_world snapshot_env]
      cost_create_missing_reference
        [of "example_fields\<lparr>filament_id := Some 2\<rparr>" example_world snapshot_env]
    by auto
qed

subsection \<open>Keyword arguments the database layer does not declare\<close>

text \<open>
  C4.  The endpoints \<open>create\<close> and \<open>update\<close> of cost calculations pass the keywords
  \<open>energy_cost_per_kwh\<close>, \<open>labor_cost_per_hour\<close> and \<open>item_names\<close>, which the functions of the
  database layer do not declare.  For every body, and every id, the call raises \<open>TypeError\<close>
  and nothing has changed: no row, no event, no response.
\<close>

theorem api_cost_endpoints_raise_TypeError:
  "(\<exists>msg. api_cost_create E body w = (Inl (TypeError msg), w))
   \<and> (\<exists>msg. api_cost_update E calculation_id body w = (Inl (TypeError msg), w))"
  by (simp add: api_cost_create_def api_cost_update_def bind_keywords_def
      cost_db_optional_parameters_def api_cost_create_keywords_def api_cost_update_keywords_def)

theorem api_cost_endpoints_raise_TypeError_witness:
  "fst (api_cost_create snapshot_env example_body example_world)
     = Inl (TypeError ''create() got an unexpected keyword argument energy_cost_per_kwh'')
   \<and> snd (api_cost_create snapshot_env example_body example_world) = example_world
   \<and> fst (api_cost_update snapshot_env 1 example_body example_world)
     = Inl (TypeError ''update() got an unexpected keyword argument energy_cost_per_kwh'')
   \<and> snd (api_cost_update snapshot_env 1 example_body example_world) = example_world"
  using api_cost_endpoints_raise_TypeError [of snapshot_env example_body example_world 1]
  by (auto simp add: api_cost_create_def api_cost_update_def bind_keywords_def
      cost_db_optional_parameters_def api_cost_create_keywords_def api_cost_update_keywords_def)

subsection \<open>What a mutation publishes\<close>











subsection \<open>Publishing\<close>

lemma broken_deliver [simp]: "broken (deliver evt x m) = broken m"
  by (simp add: deliver_def)

lemma broken_fold_deliver [simp]: "broken (fold (deliver evt) cs m) = broken m"
  by (induction cs arbitrary: m) simp_all

lemma outbox_deliver:
  "outbox (deliver evt x m) c =
     (if x = c \<and> \<not> broken m c then outbox m c @ [evt] else outbox m c)"
  by (simp add: deliver_def)

lemma outbox_fold_deliver:
  "outbox (fold (deliver evt) cs m) c =
     (if broken m c then outbox m c else outbox m c @ replicate (count_list cs c) evt)"
proof (induction cs arbitrary: m)
  case Nil
  then show ?case by simp
next
  case (Cons x cs)
  show ?case
    by (simp add: Cons.IH outbox_deliver replicate_append_same)
qed

lemma outbox_publish:
  "outbox (publish tp evt m) c =
     (if broken m c then outbox m c
      else outbox m c @ replicate (count_list (recipients m tp) c) evt)"
  by (simp add: publish_def outbox_fold_deliver)

lemma recipients_iff:
  "c \<in> set (recipients m tp) \<longleftrightarrow> (\<exists>p. prefix p tp \<and> c \<in> set (registry m p))"
  by (auto simp: recipients_def in_set_prefixes)

lemma publish_reaches:
  assumes "\<not> broken m c" and "prefix p tp" and "c \<in> set (registry m p)"
  shows "\<exists>n>0. outbox (publish tp evt m) c = outbox m c @ replicate n evt"
proof -
  have "c \<in> set (recipients m tp)"
    using assms by (auto simp: recipients_iff)
  then have "0 < count_list (recipients m tp) c"
    by (simp add: count_list_0_iff zero_less_iff_neq_zero)
  with assms(1) show ?thesis
    by (auto simp: outbox_publish)
qed

lemma publish_skips:
  assumes "\<forall>p. prefix p tp \<longrightarrow> c \<notin> set (registry m p)"
  shows "outbox (publish tp evt m) c = outbox m c"
proof -
  have "c \<notin> set (recipients m tp)"
    using assms by (auto simp: recipients_iff)
  then have "count_list (recipients m tp) c = 0"
    by (simp add: count_list_0_iff)
  then show ?thesis
    by (simp add: outbox_publish)
qed

lemma send_logged_manager:
  assumes "ws_send E = websocket_manager_send"
  shows "manager (snd (send_logged E tp evt w)) = publish tp evt (manager w)"
  by (simp add: send_logged_def assms websocket_manager_send_def)

text \<open>
  C2.  \<open>publish\<close> appends the event, at least once, to the stream of every live connection
  subscribed to the topic or to a prefix of it, and leaves alone every connection subscribed
  to no prefix of the topic.  In particular the event that \<open>printer_changed\<close> sends under
  \<open>("printer", str(id))\<close> reaches the sessions that \<open>notify_any\<close> registered under
  \<open>("printer",)\<close>, and likewise for cost calculations.
\<close>

theorem publish_fans_out_to_prefixes:
  "(\<not> broken m c \<and> prefix p tp \<and> c \<in> set (registry m p)
      \<longrightarrow> (\<exists>n>0. outbox (publish tp evt m) c = outbox m c @ replicate n evt))
   \<and> ((\<forall>p. prefix p tp \<longrightarrow> c \<notin> set (registry m p))
      \<longrightarrow> outbox (publish tp evt m) c = outbox m c)
   \<and> (ws_send E = websocket_manager_send \<and> \<not> broken (manager w) c
        \<and> c \<in> set (registry (manager w) [''printer''])
      \<longrightarrow> (\<exists>n>0. outbox (manager (snd (printer_changed E pr typ w))) c
                  = outbox (manager w) c @
                    replicate n \<lparr>event_type = typ, resource = ''printer'', date = utcnow w,
                                 payload = Printer_from_db E pr\<rparr>))
   \<and> (ws_send E = websocket_manager_send \<and> \<not> broken (manager w) c
        \<and> c \<in> set (registry (manager w) [''cost''])
      \<longrightarrow> (\<exists>n>0. outbox (manager (snd (cost_changed E cc typ w))) c
                  = outbox (manager w) c @
                    replicate n \<lparr>event_type = typ, resource = ''cost'', date = utcnow w,
                                 payload = CostCalculation_from_db E cc
                                   (map_option (Printer_from_db E) (printer cc))
                                   (map_option (Filament_from_db E) (filament cc))\<rparr>))"
proof (intro conjI impI)
  show "\<exists>n>0. outbox (publish tp evt m) c = outbox m c @ replicate n evt"
    if "\<not> broken m c \<and> prefix p tp \<and> c \<in> set (registry m p)"
    using that publish_reaches by blast
  show "outbox (publish tp evt m) c = outbox m c"
    if "\<forall>p. prefix p tp \<longrightarrow> c \<notin> set (registry m p)"
    using that by (rule publish_skips)
  show "\<exists>n>0. outbox (manager (snd (printer_changed E pr typ w))) c
                  = outbox (manager w) c @
                    replicate n \<lparr>event_type = typ, resource = ''printer'', date = utcnow w,
                                 payload = Printer_from_db E pr\<rparr>"
    if h: "ws_send E = websocket_manager_send \<and> \<not> broken (manager w) c
        \<and> c \<in> set (registry (manager w) [''printer''])"
  proof -
    have "prefix [''printer''] [''printer'', str_int (pid pr)]" by simp
    with h publish_reaches [of "manager w" c "[''printer'']" "[''printer'', str_int (pid pr)]"]
    show ?thesis
      unfolding printer_changed_def
      by (simp add: send_logged_manager)
  qed
  show "\<exists>n>0. outbox (manager (snd (cost_changed E cc typ w))) c
                  = outbox (manager w) c @
                    replicate n \<lparr>event_type = typ, resource = ''cost'', date = utcnow w,
                                 payload = CostCalculation_from_db E cc
                                   (map_option (Printer_from_db E) (printer cc))
                                   (map_option (Filament_from_db E) (filament cc))\<rparr>"
    if h: "ws_send E = websocket_manager_send \<and> \<not> broken (manager w) c
        \<and> c \<in> set (registry (manager w) [''cost''])"
  proof -
    have "prefix [''cost''] [''cost'', str_int (cid (row cc))]" by simp
    with h publish_reaches [of "manager w" c "[''cost'']" "[''cost'', str_int (cid (row cc))]"]
    show ?thesis
      unfolding cost_changed_def
      by (simp add: send_logged_manager)
  qed
qed


lemma example_manager_registry:
  "registry example_manager =
     ((\<lambda>_. [])([''printer''] := [7], [''printer'', ''1''] := [8], [''cost''] := [9]))"
  by (simp add: example_manager_def cost_notify_any_def printer_notify_def
      printer_notify_any_def notify_handler_def connect_def empty_manager_def)

lemma example_manager_broken: "broken example_manager = (\<lambda>_. False)"
  by (simp add: example_manager_def cost_notify_any_def printer_notify_def
      printer_notify_any_def notify_handler_def connect_def empty_manager_def)

lemma example_manager_outbox: "outbox example_manager = (\<lambda>_. [])"
  by (simp add: example_manager_def cost_notify_any_def printer_notify_def
      printer_notify_any_def notify_handler_def connect_def empty_manager_def)

theorem publish_fans_out_to_prefixes_witness:
  "outbox (publish [''printer'', ''1''] example_event example_manager) 7 = [example_event]
   \<and> outbox (publish [''printer'', ''1''] example_event example_manager) 8 = [example_event]
   \<and> outbox (publish [''printer'', ''1''] example_event example_manager) 9 = []
   \<and> outbox (publish [''printer'', ''2''] example_event example_manager) 8 = []
   \<and> outbox (manager (snd (printer_changed snapshot_env
         (example_printer 1 ''Exact Name'' (Some 250)) UPDATED
         (example_world\<lparr>manager := example_manager\<rparr>)))) 7 = [example_event]"
proof -
  have r: "recipients example_manager [''printer'', ''1''] = [7, 8]"
    "recipients example_manager [''printer'', ''2''] = [7]"
    by (simp_all add: recipients_def example_manager_registry)
  have 1: "\<exists>n>0. outbox (publish [''printer'', ''1''] example_event example_manager) 7
                = outbox example_manager 7 @ replicate n example_event"
    using publish_fans_out_to_prefixes
      [THEN conjunct1, rule_format, of example_manager 7 "[''printer'']" "[''printer'', ''1'']"]
    by (simp add: example_manager_registry example_manager_broken)
  have h2: "\<forall>p. prefix p [''printer'', ''1''] \<longrightarrow> 9 \<notin> set (registry example_manager p)"
    by (auto simp: example_manager_registry prefix_Cons)
  have 2: "outbox (publish [''printer'', ''1''] example_event example_manager) 9
             = outbox example_manager 9"
    using publish_fans_out_to_prefixes [THEN conjunct2, THEN conjunct1, THEN mp, OF h2] .
  show ?thesis
    using 1 2
    by (simp add: outbox_publish r example_manager_broken example_manager_outbox
        printer_changed_def send_logged_manager snapshot_env_def example_world_def
        example_event_def example_printer_def str_int_def str_nat.simps decimal_digits_def)
qed


subsection \<open>The sessions\<close>

lemma connect_other: "tp' \<noteq> tp \<Longrightarrow> registry (connect tp ws m) tp' = registry m tp'"
  by (simp add: connect_def)

lemma connect_member: "ws \<in> set (registry (connect tp ws m) tp)"
  by (simp add: connect_def)

lemma disconnect_connect:
  "registry (disconnect tp ws (connect tp ws m)) = (registry m)(tp := removeAll ws (registry m tp))"
  by (auto simp: disconnect_def connect_def fun_eq_iff)

text \<open>
  C1, as stated, fails: a session whose loop is cancelled, or whose \<open>receive_text\<close> raises
  anything but \<open>WebSocketDisconnect\<close> (a \<open>KeyError\<close> on a binary frame), ends with its entry
  still in the registry.
\<close>

theorem session_leaves_entry_on_other_exits:
  "fst (printer_notify_any 7 [Returns [], Raises CancelledError] empty_manager)
     = Raised CancelledError
   \<and> 7 \<in> set (registry
               (snd (printer_notify_any 7 [Returns [], Raises CancelledError] empty_manager))
               [''printer''])
   \<and> fst (cost_notify 7 ''3'' [Returns [], Returns [], Raises (KeyError ''text'')] empty_manager)
     = Raised (KeyError ''text'')
   \<and> 7 \<in> set (registry
               (snd (cost_notify 7 ''3'' [Returns [], Returns [], Raises (KeyError ''text'')]
                      empty_manager))
               [''cost'', ''3''])"
  by (simp add: printer_notify_any_def cost_notify_def notify_handler_def connect_def
      empty_manager_def)

text \<open>
  C1, amended.  A handler returns exactly when its loop ends with \<open>WebSocketDisconnect\<close>;
  it has then unsubscribed: the registry holds no entry of the session under its topic, is
  as before under every other topic, and holds no entry of the session at all when it held
  none before the session.
\<close>

theorem session_unsubscribes_on_disconnect:
  "(script = Returns a # rest \<and> heartbeat rest = Some WebSocketDisconnect
      \<longrightarrow> fst (notify_handler tp ws script m) = Returned)
   \<and> (notify_handler tp ws script m = (Returned, m')
      \<longrightarrow> (\<exists>a rest. script = Returns a # rest \<and> heartbeat rest = Some WebSocketDisconnect)
        \<and> ws \<notin> set (registry m' tp)
        \<and> (\<forall>tp'. tp' \<noteq> tp \<longrightarrow> registry m' tp' = registry m tp')
        \<and> ((\<forall>tp'. ws \<notin> set (registry m tp')) \<longrightarrow> (\<forall>tp'. ws \<notin> set (registry m' tp'))))"
proof (intro conjI impI)
  assume "script = Returns a # rest \<and> heartbeat rest = Some WebSocketDisconnect"
  then show "fst (notify_handler tp ws script m) = Returned"
    by (simp add: notify_handler_def)
next
  assume h: "notify_handler tp ws script m = (Returned, m')"
  then obtain a rest where s: "script = Returns a # rest"
    and hb: "heartbeat rest = Some WebSocketDisconnect"
    and m': "m' = disconnect tp ws (connect tp ws m)"
    by (auto simp: notify_handler_def Let_def
        split: list.splits awaited.splits option.splits if_splits)
  show "\<exists>a rest. script = Returns a # rest \<and> heartbeat rest = Some WebSocketDisconnect"
    using s hb by blast
  show "ws \<notin> set (registry m' tp)"
    by (simp add: m' disconnect_connect)
  show "\<forall>tp'. tp' \<noteq> tp \<longrightarrow> registry m' tp' = registry m tp'"
    by (simp add: m' disconnect_connect)
  show "\<forall>tp'. ws \<notin> set (registry m' tp')" if "\<forall>tp'. ws \<notin> set (registry m tp')"
    using that by (simp add: m' disconnect_connect)
qed

theorem session_unsubscribes_on_disconnect_witness:
  "heartbeat [Returns [], Returns ''ping'', Returns [], Returns [], Raises WebSocketDisconnect]
     = Some WebSocketDisconnect
   \<and> fst (printer_notify_any 7
            [Returns [], Returns [], Returns ''ping'', Returns [], Returns [],
             Raises WebSocketDisconnect] empty_manager) = Returned
   \<and> (\<forall>tp'. 7 \<notin> set (registry
         (snd (printer_notify_any 7
            [Returns [], Returns [], Returns ''ping'', Returns [], Returns [],
             Raises WebSocketDisconnect] empty_manager)) tp'))"
proof -
  let ?rest = "[Returns [], Returns ''ping'', Returns [], Returns [], Raises WebSocketDisconnect]"
  let ?m = "empty_manager :: snapshot manager_state"
  have hb: "heartbeat ?rest = Some WebSocketDisconnect" by simp
  have 1: "fst (notify_handler [''printer''] 7 (Returns [] # ?rest) ?m) = Returned"
    using session_unsubscribes_on_disconnect [THEN conjunct1, THEN mp, OF conjI [OF refl hb]] .
  then have 2: "notify_handler [''printer''] 7 (Returns [] # ?rest) ?m
          = (Returned, snd (notify_handler [''printer''] 7 (Returns [] # ?rest) ?m))"
    by (metis prod.collapse)
  have fresh: "\<forall>tp'. 7 \<notin> set (registry ?m tp')"
    by (simp add: empty_manager_def)
  have 3: "\<forall>tp'. 7 \<notin> set (registry (snd (notify_handler [''printer''] 7 (Returns [] # ?rest) ?m)) tp')"
    using session_unsubscribes_on_disconnect [THEN conjunct2, THEN mp, OF 2] fresh by blast
  show ?thesis
    using hb 1 3 by (simp add: printer_notify_any_def)
qed

subsection \<open>Sorting, paging and the rows of a statement\<close>



lemma set_insert_row [simp]: "set (insert_row le x ys) = insert x (set ys)"
  by (induction ys) auto

lemma length_insert_row [simp]: "length (insert_row le x ys) = Suc (length ys)"
  by (induction ys) auto

lemma mset_insert_row [simp]: "mset (insert_row le x ys) = add_mset x (mset ys)"
  by (induction ys) auto


lemma set_sort_rows [simp]: "set (sort_rows cs rows) = set rows"
  by (induction rows) (simp_all add: sort_rows_def)

lemma length_sort_rows [simp]: "length (sort_rows cs rows) = length rows"
  by (induction rows) (simp_all add: sort_rows_def)

lemma mset_sort_rows [simp]: "mset (sort_rows cs rows) = mset rows"
  by (induction rows) (simp_all add: sort_rows_def)


lemma insert_row_no_clause: "insert_row (row_le []) x ys = x # ys"
  by (cases ys) simp_all

lemma sort_rows_no_clause [simp]: "sort_rows [] rows = rows"
  by (induction rows) (simp_all add: sort_rows_def insert_row_no_clause)

lemma set_unique_from: "set (unique_from seen xs) = set xs - set seen"
  by (induction seen xs rule: unique_from.induct) auto

lemma length_unique_from: "length (unique_from seen xs) \<le> length xs"
  by (induction seen xs rule: unique_from.induct) auto

lemma unique_from_distinct:
  "distinct xs \<Longrightarrow> set xs \<inter> set seen = {} \<Longrightarrow> unique_from seen xs = xs"
  by (induction seen xs rule: unique_from.induct) auto


lemma set_unique [simp]: "set (unique xs) = set xs"
  by (simp add: unique_def set_unique_from)

lemma length_unique: "length (unique xs) \<le> length xs"
  by (simp add: unique_def length_unique_from)

lemma unique_distinct: "distinct xs \<Longrightarrow> unique xs = xs"
  by (simp add: unique_def unique_from_distinct)


lemma length_sql_offset_limit: "length (sql_offset_limit off lmt rows) \<le> length rows"
  by (auto simp: sql_offset_limit_def Let_def split: option.splits)


lemma distinct_sql_offset_limit:
  "distinct rows \<Longrightarrow> distinct (sql_offset_limit off lmt rows)"
  by (auto simp: sql_offset_limit_def Let_def split: option.splits)

lemma sql_offset_limit_none [simp]: "sql_offset_limit None None rows = rows"
  by (simp add: sql_offset_limit_def)

lemma length_sql_offset_limit_page:
  "0 \<le> l \<Longrightarrow> length (sql_offset_limit (Some off) (Some l) rows)
     = min (nat l) (length rows - nat off)"
  by (simp add: sql_offset_limit_def)

lemma order_by_items_Inr:
  "order_by_items model items stmt = Inr stmt' \<Longrightarrow>
     \<exists>cs. clauses_of model items cs \<and>
          stmt' = stmt\<lparr>order_by_clauses := order_by_clauses stmt @ cs\<rparr>"
proof (induction model items stmt rule: order_by_items.induct)
  case (1 model stmt)
  then show ?case by (simp add: clauses_of_def)
next
  case (2 model fieldstr order items stmt)
  from "2.prems" obtain acc where acc: "map_of model fieldstr = Some acc"
    and rest: "order_by_items model items (stmt_order_by (acc, order) stmt) = Inr stmt'"
    by (auto simp: parse_nested_field_def split: option.splits sum.splits)
  from "2.IH" [of acc] acc rest obtain cs where cs: "clauses_of model items cs"
    and stmt': "stmt' = (stmt_order_by (acc, order) stmt)
        \<lparr>order_by_clauses := order_by_clauses (stmt_order_by (acc, order) stmt) @ cs\<rparr>"
    by (auto simp: parse_nested_field_def)
  have "clauses_of model ((fieldstr, order) # items) ((acc, order) # cs)"
    using cs acc by (simp add: clauses_of_def)
  moreover have "stmt' = stmt\<lparr>order_by_clauses := order_by_clauses stmt @ (acc, order) # cs\<rparr>"
    by (simp add: stmt' stmt_order_by_def)
  ultimately show ?case by blast
qed

lemma order_by_items_Inl:
  "order_by_items model items stmt = Inl e \<Longrightarrow>
     \<exists>f \<in> fst ` set items. map_of model f = None \<and> e = InvalidQuery f"
  by (induction model items stmt rule: order_by_items.induct)
    (auto simp: parse_nested_field_def split: option.splits sum.splits)



lemma add_where_clause_str_opt_other [simp]:
  "order_by_clauses (add_where_clause_str_opt stmt f v) = order_by_clauses stmt"
  "offset_clause (add_where_clause_str_opt stmt f v) = offset_clause stmt"
  "limit_clause (add_where_clause_str_opt stmt f v) = limit_clause stmt"
  by (simp_all add: add_where_clause_str_opt_def stmt_where_def split: option.splits)

lemma add_where_clause_int_opt_other [simp]:
  "order_by_clauses (add_where_clause_int_opt stmt f v) = order_by_clauses stmt"
  "offset_clause (add_where_clause_int_opt stmt f v) = offset_clause stmt"
  "limit_clause (add_where_clause_int_opt stmt f v) = limit_clause stmt"
  by (simp_all add: add_where_clause_int_opt_def stmt_where_def split: option.splits)

lemma select_from_simps [simp]:
  "order_by_clauses select_from = []"
  "offset_clause select_from = None"
  "limit_clause select_from = None"
  by (simp_all add: select_from_def)

lemma db_executed_tables [simp]:
  "printer_table (db_executed k s) = printer_table s"
  "filament_table (db_executed k s) = filament_table s"
  "cost_table (db_executed k s) = cost_table s"
  "pending (db_executed k s) = pending s"
  "executed (db_executed k s) = executed s @ [k]"
  by (simp_all add: db_executed_def)

lemma load_cost_db_executed [simp]: "load_cost (db_executed k s) = load_cost s"
  by (simp add: fun_eq_iff load_cost_def db_get_printer_def db_get_filament_def
      split: option.splits)

lemma printer_db_find_Inr:
  assumes "printer_db_find name' sort_by limit offset s = (Inr (items, total_count), s')"
  shows "\<exists>cs. (case sort_by of None \<Rightarrow> cs = [] | Some sb \<Rightarrow> clauses_of Printer_model sb cs)
     \<and> items = unique (sql_offset_limit (map_option (\<lambda>_. offset) limit) limit
                 (sort_rows cs (filter (printer_filter name') (printer_table s))))
     \<and> total_count = (case limit of
                  None \<Rightarrow> int (length items)
                | Some _ \<Rightarrow> int (length (filter (printer_filter name') (printer_table s))))
     \<and> s' = db_executed SelectStatement
              (case limit of None \<Rightarrow> s | Some _ \<Rightarrow> db_executed CountStatement s)"
proof -
  define stmt :: "Printer select" where "stmt = add_where_clause_str_opt select_from name name'"
  define stmt1 where
    "stmt1 = (case limit of None \<Rightarrow> stmt | Some l \<Rightarrow> stmt_limit l (stmt_offset offset stmt))"
  define s1 where "s1 = (case limit of None \<Rightarrow> s | Some _ \<Rightarrow> db_executed CountStatement s)"
  have w: "whereclause stmt1 = printer_filter name'"
    and o: "offset_clause stmt1 = map_option (\<lambda>_. offset) limit"
    and l: "limit_clause stmt1 = limit"
    and ob: "order_by_clauses stmt1 = []"
    by (simp_all add: stmt1_def stmt_def printer_filter_def stmt_limit_def stmt_offset_def
        split: option.splits)
  define r where "r = (case sort_by of None \<Rightarrow> Inr stmt1
             | Some sb \<Rightarrow> order_by_items Printer_model sb stmt1)"
  have unfolded: "printer_db_find name' sort_by limit offset s =
      (case r of
         Inl e \<Rightarrow> (Inl e, s1)
       | Inr stmt2 \<Rightarrow>
           (Inr (unique (execute_select (printer_table s) stmt2),
                 (case limit of
                    None \<Rightarrow> int (length (unique (execute_select (printer_table s) stmt2)))
                  | Some _ \<Rightarrow> execute_count (printer_table s) stmt)),
            db_executed SelectStatement s1))"
    unfolding r_def stmt_def stmt1_def s1_def
    by (cases limit) (simp_all add: printer_db_find_def Let_def cong: option.case_cong sum.case_cong)
  from assms obtain stmt2 where stmt2: "r = Inr stmt2"
    by (cases r) (simp_all add: unfolded)
  from assms have items: "items = unique (execute_select (printer_table s) stmt2)"
    and tc: "total_count = (case limit of None \<Rightarrow> int (length items)
                  | Some _ \<Rightarrow> execute_count (printer_table s) stmt)"
    and s': "s' = db_executed SelectStatement s1"
    by (auto simp: unfolded stmt2)
  note stmt2 = stmt2 [unfolded r_def]
  obtain cs where cs: "(case sort_by of None \<Rightarrow> cs = [] | Some sb \<Rightarrow> clauses_of Printer_model sb cs)"
    and stmt2': "stmt2 = stmt1\<lparr>order_by_clauses := cs\<rparr>"
  proof (cases sort_by)
    case None
    with stmt2 that [of "[]"] ob show ?thesis by simp
  next
    case (Some sb)
    with stmt2 order_by_items_Inr [of Printer_model sb stmt1 stmt2] that ob show ?thesis
      by auto
  qed
  have "execute_count (printer_table s) stmt
          = int (length (filter (printer_filter name') (printer_table s)))"
    by (simp add: execute_count_def stmt_def printer_filter_def)
  with cs items tc s' show ?thesis
    by (intro exI [of _ cs])
      (simp add: execute_select_def stmt2' w o l s1_def cong: option.case_cong)
qed

lemma cost_db_find_Inr:
  assumes "cost_db_find printer_id' filament_id' sort_by limit offset s = (Inr (items, total_count), s')"
  shows "\<exists>cs. (case sort_by of None \<Rightarrow> cs = []
                | Some sb \<Rightarrow> clauses_of CostCalculation_model sb cs)
     \<and> items = unique (sql_offset_limit (map_option (\<lambda>_. offset) limit) limit
                 (sort_rows cs (filter (cost_filter printer_id' filament_id')
                    (map (load_cost s) (cost_table s)))))
     \<and> total_count = (case limit of
                  None \<Rightarrow> int (length items)
                | Some _ \<Rightarrow> int (length (filter (cost_filter printer_id' filament_id')
                                          (map (load_cost s) (cost_table s)))))
     \<and> s' = db_executed SelectStatement
              (case limit of None \<Rightarrow> s | Some _ \<Rightarrow> db_executed CountStatement s)"
proof -
  define stmt :: "CostCalculation select" where
    "stmt = add_where_clause_int_opt
          (add_where_clause_int_opt select_from (\<lambda>c. printer_id (row c)) printer_id')
          (\<lambda>c. filament_id (row c)) filament_id'"
  define stmt1 where
    "stmt1 = (case limit of None \<Rightarrow> stmt | Some l \<Rightarrow> stmt_limit l (stmt_offset offset stmt))"
  define s1 where "s1 = (case limit of None \<Rightarrow> s | Some _ \<Rightarrow> db_executed CountStatement s)"
  have w: "whereclause stmt1 = cost_filter printer_id' filament_id'"
    and o: "offset_clause stmt1 = map_option (\<lambda>_. offset) limit"
    and l: "limit_clause stmt1 = limit"
    and ob: "order_by_clauses stmt1 = []"
    by (simp_all add: stmt1_def stmt_def cost_filter_def stmt_limit_def stmt_offset_def
        split: option.splits)
  define r where "r = (case sort_by of None \<Rightarrow> Inr stmt1
             | Some sb \<Rightarrow> order_by_items CostCalculation_model sb stmt1)"
  have unfolded: "cost_db_find printer_id' filament_id' sort_by limit offset s =
      (case r of
         Inl e \<Rightarrow> (Inl e, s1)
       | Inr stmt2 \<Rightarrow>
           (Inr (unique (execute_select (map (load_cost s) (cost_table s)) stmt2),
                 (case limit of
                    None \<Rightarrow> int (length (unique (execute_select (map (load_cost s) (cost_table s)) stmt2)))
                  | Some _ \<Rightarrow> execute_count (map (load_cost s) (cost_table s)) stmt)),
            db_executed SelectStatement s1))"
    unfolding r_def stmt_def stmt1_def s1_def
    by (cases limit) (simp_all add: cost_db_find_def Let_def cong: option.case_cong sum.case_cong)
  from assms obtain stmt2 where stmt2: "r = Inr stmt2"
    by (cases r) (simp_all add: unfolded)
  from assms have items: "items = unique (execute_select (map (load_cost s) (cost_table s)) stmt2)"
    and tc: "total_count = (case limit of None \<Rightarrow> int (length items)
                  | Some _ \<Rightarrow> execute_count (map (load_cost s) (cost_table s)) stmt)"
    and s': "s' = db_executed SelectStatement s1"
    by (auto simp: unfolded stmt2)
  note stmt2 = stmt2 [unfolded r_def]
  obtain cs where cs: "(case sort_by of None \<Rightarrow> cs = []
         | Some sb \<Rightarrow> clauses_of CostCalculation_model sb cs)"
    and stmt2': "stmt2 = stmt1\<lparr>order_by_clauses := cs\<rparr>"
  proof (cases sort_by)
    case None
    with stmt2 that [of "[]"] ob show ?thesis by simp
  next
    case (Some sb)
    with stmt2 order_by_items_Inr [of CostCalculation_model sb stmt1 stmt2] that ob show ?thesis
      by auto
  qed
  have "execute_count (map (load_cost s) (cost_table s)) stmt
          = int (length (filter (cost_filter printer_id' filament_id')
                           (map (load_cost s) (cost_table s))))"
    by (simp add: execute_count_def stmt_def cost_filter_def)
  with cs items tc s' show ?thesis
    by (intro exI [of _ cs])
      (simp add: execute_select_def stmt2' w o l s1_def cong: option.case_cong)
qed

subsection \<open>The total count\<close>

lemma distinct_sort_rows [simp]: "distinct (sort_rows cs rows) = distinct rows"
  by (rule mset_eq_imp_distinct_iff) simp

lemma distinct_load_cost: "distinct rows \<Longrightarrow> distinct (map (load_cost s) rows)"
proof -
  have "inj (load_cost s)"
    by (rule injI) (simp add: load_cost_def)
  then show "distinct rows \<Longrightarrow> distinct (map (load_cost s) rows)"
    by (simp add: distinct_map inj_on_def)
qed

lemma page_properties:
  assumes items: "items = unique (sql_offset_limit (map_option (\<lambda>_. offset) limit) limit
                 (sort_rows cs (filter P rows)))"
    and total: "total_count = (case limit of
                  None \<Rightarrow> int (length items)
                | Some _ \<Rightarrow> int (length (filter P rows)))"
  shows "(limit \<noteq> None \<longrightarrow> total_count = int (length (filter P rows)))
    \<and> (limit = None \<longrightarrow> set items = {r \<in> set rows. P r} \<and> total_count = int (length items))
    \<and> int (length items) \<le> total_count
    \<and> (\<forall>l. limit = Some l \<and> 0 \<le> l \<and> distinct rows
          \<longrightarrow> length items = min (nat l) (length (filter P rows) - nat offset))"
proof (intro conjI impI allI)
  show "total_count = int (length (filter P rows))" if "limit \<noteq> None"
    using that total by (cases limit) simp_all
  show "set items = {r \<in> set rows. P r}" if "limit = None"
    using that items by simp
  show "total_count = int (length items)" if "limit = None"
    using that total by simp
  show "int (length items) \<le> total_count"
  proof (cases limit)
    case None
    with total show ?thesis by simp
  next
    case (Some l)
    have "length items \<le> length (sort_rows cs (filter P rows))"
      unfolding items
      by (rule order_trans [OF length_unique length_sql_offset_limit])
    with Some total show ?thesis by simp
  qed
  show "length items = min (nat l) (length (filter P rows) - nat offset)"
    if h: "limit = Some l \<and> 0 \<le> l \<and> distinct rows" for l
  proof -
    from h have "distinct (sql_offset_limit (Some offset) (Some l) (sort_rows cs (filter P rows)))"
      by (simp add: distinct_sql_offset_limit)
    then have "items = sql_offset_limit (Some offset) (Some l) (sort_rows cs (filter P rows))"
      using h by (simp add: items unique_distinct)
    with h show ?thesis
      by (simp add: length_sql_offset_limit_page)
  qed
qed

text \<open>
  C3.  For \<open>find\<close> of printers and of cost calculations: with a limit, \<open>total_count\<close> is the
  number of rows that pass the \<open>where\<close> criteria, before \<open>OFFSET\<close> and \<open>LIMIT\<close>; without a
  limit, the items are all these rows and \<open>total_count\<close> is their number; \<open>total_count\<close> is
  never less than the number of items; and over a table without duplicate rows a page with
  limit \<open>l \<ge> 0\<close> has as many items as \<open>l\<close> and the matching rows after the offset allow, so
  that limit 2 at offset 0 over 5 matching rows gives 2 items and \<open>total_count = 5\<close>.
\<close>

theorem find_total_count:
  "(printer_db_find name' sort_by limit offset s = (Inr (items, total_count), s') \<longrightarrow>
      (limit \<noteq> None \<longrightarrow>
         total_count = int (length (filter (printer_filter name') (printer_table s))))
    \<and> (limit = None \<longrightarrow>
         set items = {r \<in> set (printer_table s). printer_filter name' r}
         \<and> total_count = int (length items))
    \<and> int (length items) \<le> total_count
    \<and> (\<forall>l. limit = Some l \<and> 0 \<le> l \<and> distinct (printer_table s)
          \<longrightarrow> length items
              = min (nat l)
                  (length (filter (printer_filter name') (printer_table s)) - nat offset)))
   \<and> (cost_db_find printer_id' filament_id' sort_by limit offset s
         = (Inr (citems, ctotal_count), cs') \<longrightarrow>
      (limit \<noteq> None \<longrightarrow>
         ctotal_count = int (length (filter (cost_filter printer_id' filament_id')
                                      (map (load_cost s) (cost_table s)))))
    \<and> (limit = None \<longrightarrow>
         set citems = {c \<in> load_cost s ` set (cost_table s). cost_filter printer_id' filament_id' c}
         \<and> ctotal_count = int (length citems))
    \<and> int (length citems) \<le> ctotal_count
    \<and> (\<forall>l. limit = Some l \<and> 0 \<le> l \<and> distinct (cost_table s)
          \<longrightarrow> length citems
              = min (nat l)
                  (length (filter (cost_filter printer_id' filament_id')
                             (map (load_cost s) (cost_table s))) - nat offset)))"
proof (rule conjI; rule impI)
  assume "printer_db_find name' sort_by limit offset s = (Inr (items, total_count), s')"
  from printer_db_find_Inr [OF this] obtain cs where
    "items = unique (sql_offset_limit (map_option (\<lambda>_. offset) limit) limit
                 (sort_rows cs (filter (printer_filter name') (printer_table s))))"
    "total_count = (case limit of
                  None \<Rightarrow> int (length items)
                | Some _ \<Rightarrow> int (length (filter (printer_filter name') (printer_table s))))"
    by blast
  from page_properties [OF this]
  show "(limit \<noteq> None \<longrightarrow>
         total_count = int (length (filter (printer_filter name') (printer_table s))))
    \<and> (limit = None \<longrightarrow>
         set items = {r \<in> set (printer_table s). printer_filter name' r}
         \<and> total_count = int (length items))
    \<and> int (length items) \<le> total_count
    \<and> (\<forall>l. limit = Some l \<and> 0 \<le> l \<and> distinct (printer_table s)
          \<longrightarrow> length items
              = min (nat l)
                  (length (filter (printer_filter name') (printer_table s)) - nat offset))" .
next
  assume "cost_db_find printer_id' filament_id' sort_by limit offset s
         = (Inr (citems, ctotal_count), cs')"
  from cost_db_find_Inr [OF this] obtain cs where
    "citems = unique (sql_offset_limit (map_option (\<lambda>_. offset) limit) limit
                 (sort_rows cs (filter (cost_filter printer_id' filament_id')
                    (map (load_cost s) (cost_table s)))))"
    "ctotal_count = (case limit of
                  None \<Rightarrow> int (length citems)
                | Some _ \<Rightarrow> int (length (filter (cost_filter printer_id' filament_id')
                                          (map (load_cost s) (cost_table s)))))"
    by blast
  from page_properties [OF this]
  show "(limit \<noteq> None \<longrightarrow>
         ctotal_count = int (length (filter (cost_filter printer_id' filament_id')
                                      (map (load_cost s) (cost_table s)))))
    \<and> (limit = None \<longrightarrow>
         set citems = {c \<in> load_cost s ` set (cost_table s). cost_filter printer_id' filament_id' c}
         \<and> ctotal_count = int (length citems))
    \<and> int (length citems) \<le> ctotal_count
    \<and> (\<forall>l. limit = Some l \<and> 0 \<le> l \<and> distinct (cost_table s)
          \<longrightarrow> length citems
              = min (nat l)
                  (length (filter (cost_filter printer_id' filament_id')
                             (map (load_cost s) (cost_table s))) - nat offset))"
    by (simp add: distinct_load_cost)
qed

lemma example_printers_find:
  "printer_db_find None (Some []) (Some 2) 0 example_session
     = (Inr ([example_printer 1 ''Exact Name'' (Some 250),
              example_printer 2 ''Exact Name Pro'' (Some 120)], 5),
        db_executed SelectStatement (db_executed CountStatement example_session))"
  by (simp add: printer_db_find_def Let_def add_where_clause_str_opt_def select_from_def
      stmt_limit_def stmt_offset_def execute_count_def execute_select_def
      sql_offset_limit_def unique_def example_session_def example_printers_def
      example_printer_def db_executed_def)


lemma example_costs_find:
  "\<exists>c1 c2. cost_db_find None None (Some []) (Some 2) 0 example_session
     = (Inr ([c1, c2], 4),
        db_executed SelectStatement (db_executed CountStatement example_session))"
  by (simp add: cost_db_find_def Let_def add_where_clause_int_opt_def select_from_def
      stmt_limit_def stmt_offset_def execute_count_def execute_select_def
      sql_offset_limit_def unique_def example_session_def example_costs_def
      example_cost_def db_executed_def load_cost_def)

theorem find_total_count_witness:
  "(\<exists>items s'. printer_db_find None (Some []) (Some 2) 0 example_session
                  = (Inr (items, 5), s')
      \<and> length items = 2
      \<and> length (filter (printer_filter None) (printer_table example_session)) = 5)
   \<and> (\<exists>items s'. cost_db_find None None (Some []) (Some 2) 0 example_session
                  = (Inr (items, 4), s')
      \<and> length items = 2
      \<and> length (filter (cost_filter None None)
                  (map (load_cost example_session) (cost_table example_session))) = 4)"
proof -
  from example_costs_find obtain c1 c2 where
    c: "cost_db_find None None (Some []) (Some 2) 0 example_session
     = (Inr ([c1, c2], 4),
        db_executed SelectStatement (db_executed CountStatement example_session))"
    by blast
  have dp: "distinct (printer_table example_session)"
    by (simp add: example_session_def example_printers_def example_printer_def)
  have dc: "distinct (cost_table example_session)"
    by (simp add: example_session_def example_costs_def example_cost_def)
  from find_total_count [THEN conjunct1, THEN mp, OF example_printers_find] dp
  have 1: "5 = int (length (filter (printer_filter None) (printer_table example_session)))"
    by simp
  from find_total_count [THEN conjunct2, THEN mp, OF c] dc
  have 2: "4 = int (length (filter (cost_filter None None)
                  (map (load_cost example_session) (cost_table example_session))))"
    by simp
  show ?thesis
    using 1 2 example_printers_find c by simp
qed

subsection \<open>The string filter\<close>

lemma split_char_no_separator: "sep \<notin> set s \<Longrightarrow> split_char sep s = [s]"
  by (induction s) auto

lemma contains_iff: "contains v t \<longleftrightarrow> (\<exists>pre suf. v = pre @ t @ suf)"
proof (induction v)
  case Nil
  then show ?case by simp
next
  case (Cons c cs)
  have "(\<exists>pre suf. c # cs = pre @ t @ suf)
          \<longleftrightarrow> prefix t (c # cs) \<or> (\<exists>pre suf. cs = pre @ t @ suf)"
  proof
    assume "\<exists>pre suf. c # cs = pre @ t @ suf"
    then obtain pre suf where eq: "c # cs = pre @ t @ suf" by blast
    show "prefix t (c # cs) \<or> (\<exists>pre suf. cs = pre @ t @ suf)"
    proof (cases pre)
      case Nil
      with eq show ?thesis by (auto simp: prefix_def)
    next
      case (Cons a pre')
      with eq have "cs = pre' @ t @ suf" by simp
      then show ?thesis by blast
    qed
  next
    assume "prefix t (c # cs) \<or> (\<exists>pre suf. cs = pre @ t @ suf)"
    then show "\<exists>pre suf. c # cs = pre @ t @ suf"
    proof
      assume "prefix t (c # cs)"
      then obtain suf where "c # cs = t @ suf" by (auto simp: prefix_def)
      then have "c # cs = [] @ t @ suf" by simp
      then show ?thesis by blast
    next
      assume "\<exists>pre suf. cs = pre @ t @ suf"
      then obtain pre suf where "cs = pre @ t @ suf" by blast
      then have "c # cs = (c # pre) @ t @ suf" by simp
      then show ?thesis by blast
    qed
  qed
  with Cons show ?case by simp
qed

lemma is_quoted_quoted [simp]: "is_quoted (quoted t)"
  by (simp add: is_quoted_def quoted_def)

lemma unquoted_quoted [simp]: "unquoted (quoted t) = t"
  by (simp add: unquoted_def quoted_def butlast_append)

lemma printer_filter_Some:
  "printer_filter (Some spec) r \<longleftrightarrow>
     (\<exists>t \<in> set (split_char CHR '','' spec).
        if is_quoted t then lower (name r) = lower (unquoted t)
        else (\<exists>pre suf. lower (name r) = pre @ lower t @ suf))"
  by (simp add: printer_filter_def add_where_clause_str_opt_def stmt_where_def select_from_def
      str_filter_def term_matches_def list_ex_iff contains_iff)

lemma printer_filter_None [simp]: "printer_filter None r"
  by (simp add: printer_filter_def add_where_clause_str_opt_def select_from_def)

lemma printer_filter_quoted:
  assumes "CHR '','' \<notin> set t"
  shows "printer_filter (Some (quoted t)) r \<longleftrightarrow> lower (name r) = lower t"
proof -
  have "CHR '','' \<notin> set (quoted t)"
    using assms by (simp add: quoted_def)
  then show ?thesis
    by (simp add: printer_filter_Some split_char_no_separator)
qed

lemma set_sql_offset_limit: "set (sql_offset_limit off lmt rows) \<subseteq> set rows"
  by (auto simp: sql_offset_limit_def Let_def split: option.splits
      dest: in_set_takeD in_set_dropD)

lemma page_rows:
  assumes "items = unique (sql_offset_limit (map_option (\<lambda>_. offset) limit) limit
                 (sort_rows cs (filter P rows)))"
  shows "set items \<subseteq> {r \<in> set rows. P r} \<and> (limit = None \<longrightarrow> set items = {r \<in> set rows. P r})"
proof -
  have "set items \<subseteq> set (sort_rows cs (filter P rows))"
    unfolding assms set_unique by (rule set_sql_offset_limit)
  moreover have "limit = None \<longrightarrow> set items = {r \<in> set rows. P r}"
    by (simp add: assms)
  ultimately show ?thesis by auto
qed

text \<open>
  C9.  A \<open>find\<close> of printers with a name filter returns only rows whose name matches one of
  the comma-separated terms of the filter, and all of them when there is no limit; a term
  in double quotes matches by equality of the lower-cased texts, any other term when its
  lower-cased text occurs in the lower-cased name.  The filter \<open>"Exact Name"\<close>, quotes
  included, matches a row named \<open>Exact Name\<close> and no row named \<open>Exact Name Pro\<close>.
\<close>

theorem string_filter_terms:
  "(printer_db_find (Some spec) sort_by limit offset s = (Inr (items, total_count), s') \<longrightarrow>
      set items \<subseteq> {r \<in> set (printer_table s).
          \<exists>t \<in> set (split_char CHR '','' spec).
            if is_quoted t then lower (name r) = lower (unquoted t)
            else (\<exists>pre suf. lower (name r) = pre @ lower t @ suf)}
      \<and> (limit = None \<longrightarrow>
          set items = {r \<in> set (printer_table s).
          \<exists>t \<in> set (split_char CHR '','' spec).
            if is_quoted t then lower (name r) = lower (unquoted t)
            else (\<exists>pre suf. lower (name r) = pre @ lower t @ suf)}))
   \<and> (CHR '','' \<notin> set x \<longrightarrow>
        (printer_filter (Some (quoted x)) r \<longleftrightarrow> lower (name r) = lower x))
   \<and> (name r = ''Exact Name'' \<longrightarrow> printer_filter (Some (quoted ''Exact Name'')) r)
   \<and> (name r = ''Exact Name Pro'' \<longrightarrow> \<not> printer_filter (Some (quoted ''Exact Name'')) r)"
proof (intro conjI)
  show "printer_db_find (Some spec) sort_by limit offset s = (Inr (items, total_count), s') \<longrightarrow>
      set items \<subseteq> {r \<in> set (printer_table s).
          \<exists>t \<in> set (split_char CHR '','' spec).
            if is_quoted t then lower (name r) = lower (unquoted t)
            else (\<exists>pre suf. lower (name r) = pre @ lower t @ suf)}
      \<and> (limit = None \<longrightarrow>
          set items = {r \<in> set (printer_table s).
          \<exists>t \<in> set (split_char CHR '','' spec).
            if is_quoted t then lower (name r) = lower (unquoted t)
            else (\<exists>pre suf. lower (name r) = pre @ lower t @ suf)})"
  proof
    assume "printer_db_find (Some spec) sort_by limit offset s = (Inr (items, total_count), s')"
    from printer_db_find_Inr [OF this] obtain cs where
      "items = unique (sql_offset_limit (map_option (\<lambda>_. offset) limit) limit
                 (sort_rows cs (filter (printer_filter (Some spec)) (printer_table s))))"
      by blast
    from page_rows [OF this, unfolded printer_filter_Some] show "set items \<subseteq> {r \<in> set (printer_table s).
          \<exists>t \<in> set (split_char CHR '','' spec).
            if is_quoted t then lower (name r) = lower (unquoted t)
            else (\<exists>pre suf. lower (name r) = pre @ lower t @ suf)}
      \<and> (limit = None \<longrightarrow>
          set items = {r \<in> set (printer_table s).
          \<exists>t \<in> set (split_char CHR '','' spec).
            if is_quoted t then lower (name r) = lower (unquoted t)
            else (\<exists>pre suf. lower (name r) = pre @ lower t @ suf)})"
      .
  qed
  show "CHR '','' \<notin> set x \<longrightarrow>
        (printer_filter (Some (quoted x)) r \<longleftrightarrow> lower (name r) = lower x)"
    by (simp add: printer_filter_quoted)
  show "name r = ''Exact Name'' \<longrightarrow> printer_filter (Some (quoted ''Exact Name'')) r"
    by (simp add: printer_filter_quoted)
  show "name r = ''Exact Name Pro'' \<longrightarrow> \<not> printer_filter (Some (quoted ''Exact Name'')) r"
    by (simp add: printer_filter_quoted lower_def)
qed


lemmas find_eval =
  printer_db_find_def Let_def add_where_clause_str_opt_def select_from_def stmt_where_def
  stmt_limit_def stmt_offset_def execute_count_def execute_select_def
  sql_offset_limit_def unique_def example_session_def example_printers_def
  example_printer_def db_executed_def str_filter_def term_matches_def is_quoted_def
  unquoted_def quoted_def lower_def lower_char_def uppercase_letters_def lowercase_letters_def

lemma example_quoted_find:
  "\<exists>s'. printer_db_find (Some (quoted ''exact NAME'')) (Some []) None 0 example_session
     = (Inr ([example_printer 1 ''Exact Name'' (Some 250)], 1), s')"
  by (simp add: find_eval)

lemma example_terms_find:
  "\<exists>s'. printer_db_find (Some (''exact,'' @ quoted ''ENDER'')) (Some []) None 0 example_session
     = (Inr ([example_printer 1 ''Exact Name'' (Some 250),
              example_printer 2 ''Exact Name Pro'' (Some 120),
              example_printer 5 ''Ender'' None], 3), s')"
  by (simp add: find_eval)

theorem string_filter_terms_witness:
  "(\<exists>s'. printer_db_find (Some (quoted ''exact NAME'')) (Some []) None 0 example_session
     = (Inr ([example_printer 1 ''Exact Name'' (Some 250)], 1), s'))
   \<and> (\<exists>s'. printer_db_find (Some (''exact,'' @ quoted ''ENDER'')) (Some []) None 0
             example_session
     = (Inr ([example_printer 1 ''Exact Name'' (Some 250),
              example_printer 2 ''Exact Name Pro'' (Some 120),
              example_printer 5 ''Ender'' None], 3), s'))
   \<and> {r \<in> set (printer_table example_session).
          \<exists>t \<in> set (split_char CHR '','' (quoted ''exact NAME'')).
            if is_quoted t then lower (name r) = lower (unquoted t)
            else (\<exists>pre suf. lower (name r) = pre @ lower t @ suf)}
       = {example_printer 1 ''Exact Name'' (Some 250)}
   \<and> printer_filter (Some (quoted ''Exact Name'')) (example_printer 1 ''Exact Name'' (Some 250))
   \<and> \<not> printer_filter (Some (quoted ''Exact Name''))
          (example_printer 2 ''Exact Name Pro'' (Some 120))"
proof -
  from example_quoted_find obtain s' where
    f: "printer_db_find (Some (quoted ''exact NAME'')) (Some []) None 0 example_session
     = (Inr ([example_printer 1 ''Exact Name'' (Some 250)], 1), s')"
    by blast
  from string_filter_terms [THEN conjunct1, THEN mp, OF f]
  have 1: "{r \<in> set (printer_table example_session).
          \<exists>t \<in> set (split_char CHR '','' (quoted ''exact NAME'')).
            if is_quoted t then lower (name r) = lower (unquoted t)
            else (\<exists>pre suf. lower (name r) = pre @ lower t @ suf)}
       = {example_printer 1 ''Exact Name'' (Some 250)}"
    by simp
  have 2: "printer_filter (Some (quoted ''Exact Name''))
             (example_printer 1 ''Exact Name'' (Some 250))"
    using string_filter_terms
      [THEN conjunct2, THEN conjunct2, THEN conjunct1,
       of "example_printer 1 ''Exact Name'' (Some 250)"]
    by (simp add: example_printer_def)
  have 3: "\<not> printer_filter (Some (quoted ''Exact Name''))
          (example_printer 2 ''Exact Name Pro'' (Some 120))"
    using string_filter_terms
      [THEN conjunct2, THEN conjunct2, THEN conjunct2,
       of "example_printer 2 ''Exact Name Pro'' (Some 120)"]
    by (simp add: example_printer_def)
  show ?thesis
    using example_quoted_find example_terms_find 1 2 3 by blast
qed

subsection \<open>The id filter\<close>

lemma int_filter_iff:
  "int_filter vs x \<longleftrightarrow>
     (- 1 \<in> set vs \<and> x = None) \<or> (\<exists>v \<in> set vs. v \<noteq> - 1 \<and> x = Some v)"
  by (auto simp: int_filter_def list_ex_iff split: if_splits)

lemma cost_filter_printer:
  "cost_filter (Some vs) None c \<longleftrightarrow>
     (- 1 \<in> set vs \<and> printer_id (row c) = None)
     \<or> (\<exists>v \<in> set vs. v \<noteq> - 1 \<and> printer_id (row c) = Some v)"
  by (simp add: cost_filter_def add_where_clause_int_opt_def stmt_where_def select_from_def
      int_filter_iff)

lemma cost_filter_filament:
  "cost_filter None (Some vs) c \<longleftrightarrow>
     (- 1 \<in> set vs \<and> filament_id (row c) = None)
     \<or> (\<exists>v \<in> set vs. v \<noteq> - 1 \<and> filament_id (row c) = Some v)"
  by (simp add: cost_filter_def add_where_clause_int_opt_def stmt_where_def select_from_def
      int_filter_iff)

lemma signed_digits_py_int: "signed_digits v \<Longrightarrow> \<exists>i. py_int v = Inr i"
  by (auto simp: signed_digits_def py_int_def split: list.splits if_splits)

lemma signed_digits_ints_of: "list_all signed_digits vs \<Longrightarrow> \<exists>is. ints_of vs = Inr is"
proof (induction vs)
  case Nil
  then show ?case by simp
next
  case (Cons v vs)
  then obtain i "is" where "py_int v = Inr i" "ints_of vs = Inr is"
    using signed_digits_py_int [of v] by auto
  then show ?case by simp
qed

lemma id_pattern_parses: "id_pattern v \<Longrightarrow> \<exists>vs. parse_int_csv v = Inr vs"
  using signed_digits_ints_of
  by (cases v) (fastforce simp: id_pattern_def parse_int_csv_def)+

lemmas parse_eval =
  parse_int_csv_def py_int_def is_digit_def decimal_digits_def digits_value_def

text \<open>
  C10.  A \<open>find\<close> of cost calculations with an id filter on \<open>printer_id\<close> (or on
  \<open>filament_id\<close>) returns only rows whose field is absent when \<open>-1\<close> is among the values, or
  is one of the other values, and all of them when there is no limit.  The query value
  \<open>"-1"\<close> parses to \<open>[-1]\<close> and selects the rows where the field is absent; \<open>"1,-1"\<close> parses
  to \<open>[1, -1]\<close> and selects the rows where it is 1 or absent.
\<close>

theorem id_filter_sentinel:
  "(cost_db_find (Some vs) None sort_by limit offset s = (Inr (items, total_count), s') \<longrightarrow>
      set items \<subseteq> {c \<in> load_cost s ` set (cost_table s).
          (- 1 \<in> set vs \<and> printer_id (row c) = None)
          \<or> (\<exists>v \<in> set vs. v \<noteq> - 1 \<and> printer_id (row c) = Some v)}
      \<and> (limit = None \<longrightarrow>
          set items = {c \<in> load_cost s ` set (cost_table s).
            (- 1 \<in> set vs \<and> printer_id (row c) = None)
            \<or> (\<exists>v \<in> set vs. v \<noteq> - 1 \<and> printer_id (row c) = Some v)}))
   \<and> (cost_db_find None (Some vs) sort_by limit offset s = (Inr (fitems, ftotal_count), fs') \<longrightarrow>
      set fitems \<subseteq> {c \<in> load_cost s ` set (cost_table s).
          (- 1 \<in> set vs \<and> filament_id (row c) = None)
          \<or> (\<exists>v \<in> set vs. v \<noteq> - 1 \<and> filament_id (row c) = Some v)}
      \<and> (limit = None \<longrightarrow>
          set fitems = {c \<in> load_cost s ` set (cost_table s).
            (- 1 \<in> set vs \<and> filament_id (row c) = None)
            \<or> (\<exists>v \<in> set vs. v \<noteq> - 1 \<and> filament_id (row c) = Some v)}))
   \<and> parse_int_csv (Some ''-1'') = Inr (Some [- 1])
   \<and> parse_int_csv (Some ''1,-1'') = Inr (Some [1, - 1])
   \<and> (cost_filter (Some [- 1]) None c \<longleftrightarrow> printer_id (row c) = None)
   \<and> (cost_filter (Some [1, - 1]) None c
        \<longleftrightarrow> printer_id (row c) = Some 1 \<or> printer_id (row c) = None)"
proof (intro conjI)
  show "cost_db_find (Some vs) None sort_by limit offset s = (Inr (items, total_count), s') \<longrightarrow>
      set items \<subseteq> {c \<in> load_cost s ` set (cost_table s).
          (- 1 \<in> set vs \<and> printer_id (row c) = None)
          \<or> (\<exists>v \<in> set vs. v \<noteq> - 1 \<and> printer_id (row c) = Some v)}
      \<and> (limit = None \<longrightarrow>
          set items = {c \<in> load_cost s ` set (cost_table s).
            (- 1 \<in> set vs \<and> printer_id (row c) = None)
            \<or> (\<exists>v \<in> set vs. v \<noteq> - 1 \<and> printer_id (row c) = Some v)})"
  proof
    assume "cost_db_find (Some vs) None sort_by limit offset s = (Inr (items, total_count), s')"
    from cost_db_find_Inr [OF this] obtain cs where
      "items = unique (sql_offset_limit (map_option (\<lambda>_. offset) limit) limit
                 (sort_rows cs (filter (cost_filter (Some vs) None)
                    (map (load_cost s) (cost_table s)))))"
      by blast
    from page_rows [OF this, unfolded cost_filter_printer set_map]
    show "set items \<subseteq> {c \<in> load_cost s ` set (cost_table s).
          (- 1 \<in> set vs \<and> printer_id (row c) = None)
          \<or> (\<exists>v \<in> set vs. v \<noteq> - 1 \<and> printer_id (row c) = Some v)}
      \<and> (limit = None \<longrightarrow>
          set items = {c \<in> load_cost s ` set (cost_table s).
            (- 1 \<in> set vs \<and> printer_id (row c) = None)
            \<or> (\<exists>v \<in> set vs. v \<noteq> - 1 \<and> printer_id (row c) = Some v)})" .
  qed
  show "cost_db_find None (Some vs) sort_by limit offset s = (Inr (fitems, ftotal_count), fs') \<longrightarrow>
      set fitems \<subseteq> {c \<in> load_cost s ` set (cost_table s).
          (- 1 \<in> set vs \<and> filament_id (row c) = None)
          \<or> (\<exists>v \<in> set vs. v \<noteq> - 1 \<and> filament_id (row c) = Some v)}
      \<and> (limit = None \<longrightarrow>
          set fitems = {c \<in> load_cost s ` set (cost_table s).
            (- 1 \<in> set vs \<and> filament_id (row c) = None)
            \<or> (\<exists>v \<in> set vs. v \<noteq> - 1 \<and> filament_id (row c) = Some v)})"
  proof
    assume "cost_db_find None (Some vs) sort_by limit offset s = (Inr (fitems, ftotal_count), fs')"
    from cost_db_find_Inr [OF this] obtain cs where
      "fitems = unique (sql_offset_limit (map_option (\<lambda>_. offset) limit) limit
                 (sort_rows cs (filter (cost_filter None (Some vs))
                    (map (load_cost s) (cost_table s)))))"
      by blast
    from page_rows [OF this, unfolded cost_filter_filament set_map]
    show "set fitems \<subseteq> {c \<in> load_cost s ` set (cost_table s).
          (- 1 \<in> set vs \<and> filament_id (row c) = None)
          \<or> (\<exists>v \<in> set vs. v \<noteq> - 1 \<and> filament_id (row c) = Some v)}
      \<and> (limit = None \<longrightarrow>
          set fitems = {c \<in> load_cost s ` set (cost_table s).
            (- 1 \<in> set vs \<and> filament_id (row c) = None)
            \<or> (\<exists>v \<in> set vs. v \<noteq> - 1 \<and> filament_id (row c) = Some v)})" .
  qed
  show "parse_int_csv (Some ''-1'') = Inr (Some [- 1])"
    by (simp add: parse_eval)
  show "parse_int_csv (Some ''1,-1'') = Inr (Some [1, - 1])"
    by (simp add: parse_eval)
  show "cost_filter (Some [- 1]) None c \<longleftrightarrow> printer_id (row c) = None"
    by (simp add: cost_filter_printer)
  show "cost_filter (Some [1, - 1]) None c
        \<longleftrightarrow> printer_id (row c) = Some 1 \<or> printer_id (row c) = None"
    by (auto simp add: cost_filter_printer)
qed


lemmas cost_find_eval =
  cost_db_find_def Let_def add_where_clause_int_opt_def select_from_def stmt_where_def
  stmt_limit_def stmt_offset_def execute_count_def execute_select_def int_filter_def
  sql_offset_limit_def unique_def example_session_def example_costs_def
  example_cost_def db_executed_def

lemma example_sentinel_find:
  "\<exists>s'. cost_db_find (Some [- 1]) None (Some []) None 0 example_session
     = (Inr ([load_cost example_session (example_cost 2 None (Some 1)),
              load_cost example_session (example_cost 4 None None)], 2), s')"
  by (simp add: cost_find_eval load_cost_def db_get_printer_def db_get_filament_def
      example_printers_def example_printer_def)

lemma example_sentinel_and_id_find:
  "\<exists>s'. cost_db_find (Some [1, - 1]) None (Some []) None 0 example_session
     = (Inr ([load_cost example_session (example_cost 1 (Some 1) None),
              load_cost example_session (example_cost 2 None (Some 1)),
              load_cost example_session (example_cost 4 None None)], 3), s')"
  by (simp add: cost_find_eval load_cost_def db_get_printer_def db_get_filament_def
      example_printers_def example_printer_def)

lemma example_api_cost_find:
  "\<exists>s'. api_cost_find snapshot_env (Some ''1,-1'') None None None 0 example_session
     = (Inr \<lparr>status_code = 200,
             content = Items [CostSnapshot (example_cost 1 (Some 1) None) None None,
                              CostSnapshot (example_cost 2 None (Some 1)) None None,
                              CostSnapshot (example_cost 4 None None) None None],
             headers = [(''x-total-count'', ''3'')]\<rparr>, s')"
proof -
  have p: "parse_int_csv (Some ''1,-1'') = Inr (Some [1, - 1])"
    by (simp add: parse_eval)
  have i: "id_pattern (Some ''1,-1'')" "id_pattern None"
    by (simp_all add: id_pattern_def signed_digits_def is_digit_def decimal_digits_def)
  from example_sentinel_and_id_find obtain s' where
    "cost_db_find (Some [1, - 1]) None (Some []) None 0 example_session
     = (Inr ([load_cost example_session (example_cost 1 (Some 1) None),
              load_cost example_session (example_cost 2 None (Some 1)),
              load_cost example_session (example_cost 4 None None)], 3), s')"
    by blast
  then show ?thesis
    by (simp add: api_cost_find_def p i sort_by_of_def parse_int_csv_def [of None]
        snapshot_env_def load_cost_def str_int_def str_nat.simps decimal_digits_def)
qed

theorem id_filter_sentinel_witness:
  "(\<exists>s'. cost_db_find (Some [- 1]) None (Some []) None 0 example_session
     = (Inr ([load_cost example_session (example_cost 2 None (Some 1)),
              load_cost example_session (example_cost 4 None None)], 2), s'))
   \<and> {c \<in> load_cost example_session ` set (cost_table example_session).
          (- 1 \<in> set [- 1] \<and> printer_id (row c) = None)
          \<or> (\<exists>v \<in> set [- 1]. v \<noteq> - 1 \<and> printer_id (row c) = Some v)}
       = {load_cost example_session (example_cost 2 None (Some 1)),
          load_cost example_session (example_cost 4 None None)}
   \<and> (\<exists>s'. cost_db_find (Some [1, - 1]) None (Some []) None 0 example_session
     = (Inr ([load_cost example_session (example_cost 1 (Some 1) None),
              load_cost example_session (example_cost 2 None (Some 1)),
              load_cost example_session (example_cost 4 None None)], 3), s'))
   \<and> (\<exists>s'. api_cost_find snapshot_env (Some ''1,-1'') None None None 0 example_session
     = (Inr \<lparr>status_code = 200,
             content = Items [CostSnapshot (example_cost 1 (Some 1) None) None None,
                              CostSnapshot (example_cost 2 None (Some 1)) None None,
                              CostSnapshot (example_cost 4 None None) None None],
             headers = [(''x-total-count'', ''3'')]\<rparr>, s'))"
proof -
  from example_sentinel_find obtain s' where
    f: "cost_db_find (Some [- 1]) None (Some []) None 0 example_session
     = (Inr ([load_cost example_session (example_cost 2 None (Some 1)),
              load_cost example_session (example_cost 4 None None)], 2), s')"
    by blast
  from id_filter_sentinel [THEN conjunct1, THEN mp, OF f]
  have "{c \<in> load_cost example_session ` set (cost_table example_session).
          (- 1 \<in> set [- 1] \<and> printer_id (row c) = None)
          \<or> (\<exists>v \<in> set [- 1]. v \<noteq> - 1 \<and> printer_id (row c) = Some v)}
       = {load_cost example_session (example_cost 2 None (Some 1)),
          load_cost example_session (example_cost 4 None None)}"
    by simp
  with example_sentinel_find example_sentinel_and_id_find example_api_cost_find
  show ?thesis by blast
qed

subsection \<open>Sorting\<close>











lemma sql_key_opt_real_eq [simp]: "sql_key (opt_real x) = sql_key (opt_real y) \<longleftrightarrow> x = y"
  by (cases x; cases y) (simp_all add: opt_real_def)
















end
